theory Spec2Isabelle
  imports Complex_Main
begin

section \<open>Python values, the store and the external library\<close>

text \<open>
  The reader of \<^verbatim>\<open>napari_ome_zarr/_reader.py\<close> works on the metadata of OME-Zarr nodes:
  JSON-like data, numpy matrices and vispy colour maps. An exception is a value of
  \<open>error\<close>. \<open>Unmodelled\<close> is not a Python exception: it marks a step whose outcome
  is decided inside vispy or numpy for a value the code was not written for (such as
  subscripting one of its colour-map objects), where the model stops instead of guessing.
\<close>

datatype error =
    IndexError | KeyError | TypeError | AttributeError | ValueError | RuntimeError
  | Unmodelled

type_synonym addr = nat

datatype pykey = KInt int | KStr string

text \<open>
  A numpy array is its shape and its element at every index. Elements are only moved
  around by this code, never computed with. What \<open>item\<close> holds at an index outside the
  shape is of no meaning.
\<close>

record 'a ndarray =
  shape :: "nat list"
  item :: "nat list \<Rightarrow> 'a"

text \<open>
  A Python list is an object with an identity: the same list can be reached from the node
  and from the output record, and an assignment \<^verbatim>\<open>cms[idx] = ...\<close> is seen through both.
  So a list value is the address of its elements in a store. Dictionaries and arrays
  are never written to after they are shared, and are values. \<open>'c\<close> is the type of
  vispy's colour-map objects, the objects that \<^verbatim>\<open>get_colormap\<close> and \<^verbatim>\<open>Colormap\<close>
  return. Not all of them are instances of the class \<^verbatim>\<open>Colormap\<close>: vispy's colour
  map named \<^verbatim>\<open>"hot"\<close>, for one, is not.
\<close>

datatype 'c pyval =
    PyNone
  | PyBool bool
  | PyInt int
  | PyFloat real
  | PyStr string
  | PyList addr
  | PyDict "(pykey \<times> 'c pyval) list"
  | PyArray "real ndarray"
  | PyColormap 'c

type_synonym 'c heap = "addr \<Rightarrow> 'c pyval list"

text \<open>
  The two vispy functions the reader calls, \<^verbatim>\<open>get_colormap(name)\<close> and the constructor
  \<^verbatim>\<open>Colormap(colors)\<close>, are not part of the repository: they are parameters, and so is
  the test \<^verbatim>\<open>isinstance(cm, Colormap)\<close> on a colour-map object. Each function returns
  a colour-map object or raises; nothing is assumed about whether what it returns is an
  instance of \<^verbatim>\<open>Colormap\<close>. The constructor reads its argument, which may be a list
  in the store.
\<close>

record 'c vispy =
  get_colormap :: "string \<Rightarrow> error + 'c"
  Colormap :: "'c heap \<Rightarrow> 'c pyval \<Rightarrow> error + 'c"
  isinstance_Colormap :: "'c \<Rightarrow> bool"

definition and_then :: "error + 'a \<Rightarrow> ('a \<Rightarrow> error + 'b) \<Rightarrow> error + 'b" where
  "and_then r f = (case r of Inl e \<Rightarrow> Inl e | Inr x \<Rightarrow> f x)"

section \<open>transform_properties\<close>

text \<open>
  \<^verbatim>\<open>props\<close> is a dict from label id to a dict of properties; the result has one list
  per property key and the list \<^verbatim>\<open>"index"\<close>. Python dicts keep insertion order, so
  they are association lists; \<open>dict_set\<close> is \<^verbatim>\<open>d[k] = v\<close> (an existing key keeps its
  place) and \<open>dict_append\<close> is \<^verbatim>\<open>d[k].append(v)\<close>.
\<close>

type_synonym 'c props = "(pykey \<times> (pykey \<times> 'c pyval) list) list"
type_synonym 'c columns = "(pykey \<times> 'c pyval list) list"

fun dict_set :: "'k \<Rightarrow> 'v \<Rightarrow> ('k \<times> 'v) list \<Rightarrow> ('k \<times> 'v) list" where
  "dict_set k v [] = [(k, v)]"
| "dict_set k v ((k', v') # d) = (if k' = k then (k, v) # d else (k', v') # dict_set k v d)"

definition dict_append :: "'k \<Rightarrow> 'v \<Rightarrow> ('k \<times> 'v list) list \<Rightarrow> ('k \<times> 'v list) list" where
  "dict_append k v d = map (\<lambda>(k', xs). if k' = k then (k', xs @ [v]) else (k', xs)) d"

definition dict_get :: "('k \<times> 'c pyval) list \<Rightarrow> 'k \<Rightarrow> 'c pyval" where
  "dict_get d k = (case map_of d k of None \<Rightarrow> PyNone | Some v \<Rightarrow> v)"

fun key_value :: "pykey \<Rightarrow> 'c pyval" where
  "key_value (KInt i) = PyInt i"
| "key_value (KStr s) = PyStr s"

text \<open>Lines 70-72: an empty list for every key of every object.\<close>

definition create_lists :: "'c props \<Rightarrow> 'c columns" where
  "create_lists props =
     fold (\<lambda>(label_id, props_dict) properties.
             fold (\<lambda>key p. dict_set key [] p) (map fst props_dict) properties)
          props []"

text \<open>Lines 78-81: one object appended to \<^verbatim>\<open>"index"\<close> and to the list of every key.\<close>

definition append_object ::
  "pykey list \<Rightarrow> pykey \<times> (pykey \<times> 'c pyval) list \<Rightarrow> 'c columns \<Rightarrow> 'c columns" where
  "append_object keys obj properties =
     (case obj of (label_id, props_dict) \<Rightarrow>
        fold (\<lambda>key p. dict_append key (dict_get props_dict key) p) keys
             (dict_append (KStr ''index'') (key_value label_id) properties))"

definition transform_properties :: "'c props option \<Rightarrow> 'c columns option" where
  "transform_properties props =
     (case props of
        None \<Rightarrow> None
      | Some ps \<Rightarrow>
          (let properties = create_lists ps;
               keys = map fst properties;
               properties = dict_set (KStr ''index'') [] properties
           in Some (fold (append_object keys) ps properties)))"

section \<open>numpy indexing\<close>

text \<open>
  \<^verbatim>\<open>a[dim_mask, :]\<close> and \<^verbatim>\<open>a[:, dim_mask]\<close> with a list of booleans keep the positions
  where the mask is true. numpy raises IndexError when the array has fewer than two
  axes or when the mask is not as long as the axis.
\<close>

definition true_positions :: "bool list \<Rightarrow> nat list" where
  "true_positions m = filter (\<lambda>i. m ! i) [0..<length m]"

definition mask_axis0 :: "bool list \<Rightarrow> 'a ndarray \<Rightarrow> error + 'a ndarray" where
  "mask_axis0 m a =
     (case shape a of
        n0 # n1 # rest \<Rightarrow>
          if length m \<noteq> n0 then Inl IndexError
          else Inr \<lparr>shape = length (true_positions m) # n1 # rest,
                    item = (\<lambda>ix. case ix of [] \<Rightarrow> item a []
                                   | i # r \<Rightarrow> item a (true_positions m ! i # r))\<rparr>
      | _ \<Rightarrow> Inl IndexError)"

definition mask_axis1 :: "bool list \<Rightarrow> 'a ndarray \<Rightarrow> error + 'a ndarray" where
  "mask_axis1 m a =
     (case shape a of
        n0 # n1 # rest \<Rightarrow>
          if length m \<noteq> n1 then Inl IndexError
          else Inr \<lparr>shape = n0 # length (true_positions m) # rest,
                    item = (\<lambda>ix. case ix of i # j # r \<Rightarrow> item a (i # true_positions m ! j # r)
                                   | _ \<Rightarrow> item a ix)\<rparr>
      | _ \<Rightarrow> Inl IndexError)"

text \<open>
  \<^verbatim>\<open>dim_mask = [True] * 6; dim_mask[channel_axis] = False\<close>: the assignment raises
  IndexError outside the six positions.
\<close>

definition dim_mask :: "nat \<Rightarrow> error + bool list" where
  "dim_mask channel_axis =
     (if channel_axis < 6 then Inr ((replicate 6 True)[channel_axis := False])
      else Inl IndexError)"

text \<open>
  \<^verbatim>\<open>affine[dim_mask, :][:, dim_mask]\<close>. Only an array takes a tuple as index: a list, a
  string, a dict, a number or None raise TypeError.
\<close>

definition reduce_affine :: "nat \<Rightarrow> 'c pyval \<Rightarrow> error + 'c pyval" where
  "reduce_affine channel_axis affine =
     and_then (dim_mask channel_axis) (\<lambda>m.
       case affine of
         PyArray a \<Rightarrow>
           and_then (mask_axis0 m a) (\<lambda>b.
           and_then (mask_axis1 m b) (\<lambda>c. Inr (PyArray c)))
       | PyColormap _ \<Rightarrow> Inl Unmodelled
       | _ \<Rightarrow> Inl TypeError)"

text \<open>\<^verbatim>\<open>d[:,0,...]\<close>: index 0 along axis 1, which needs two axes and a non-empty axis 1.\<close>

definition take_first_axis1 :: "'a ndarray \<Rightarrow> error + 'a ndarray" where
  "take_first_axis1 d =
     (case shape d of
        n0 # n1 # rest \<Rightarrow>
          if n1 = 0 then Inl IndexError
          else Inr \<lparr>shape = n0 # rest,
                    item = (\<lambda>ix. case ix of [] \<Rightarrow> item d []
                                   | i # r \<Rightarrow> item d (i # 0 # r))\<rparr>
      | _ \<Rightarrow> Inl IndexError)"

fun map_err :: "('a \<Rightarrow> error + 'b) \<Rightarrow> 'a list \<Rightarrow> error + 'b list" where
  "map_err g [] = Inr []"
| "map_err g (x # xs) =
     (case g x of
        Inl e \<Rightarrow> Inl e
      | Inr y \<Rightarrow> (case map_err g xs of Inl e \<Rightarrow> Inl e | Inr ys \<Rightarrow> Inr (y # ys)))"

section \<open>Operations on metadata values\<close>

text \<open>\<^verbatim>\<open>v[0]\<close>, with the exception Python raises for each kind of value.\<close>

definition getitem0 :: "'c heap \<Rightarrow> 'c pyval \<Rightarrow> error + 'c pyval" where
  "getitem0 h v =
     (case v of
        PyList a \<Rightarrow> (case h a of [] \<Rightarrow> Inl IndexError | x # _ \<Rightarrow> Inr x)
      | PyStr s \<Rightarrow> (case s of [] \<Rightarrow> Inl IndexError | c # _ \<Rightarrow> Inr (PyStr [c]))
      | PyDict d \<Rightarrow> (case map_of d (KInt 0) of None \<Rightarrow> Inl KeyError | Some x \<Rightarrow> Inr x)
      | PyArray a \<Rightarrow>
          (case shape a of
             [] \<Rightarrow> Inl IndexError
           | n # rest \<Rightarrow>
               if n = 0 then Inl IndexError
               else if rest = [] then Inr (PyFloat (item a [0]))
               else Inr (PyArray \<lparr>shape = rest, item = (\<lambda>ix. item a (0 # ix))\<rparr>))
      | PyColormap _ \<Rightarrow> Inl Unmodelled
      | _ \<Rightarrow> Inl TypeError)"

text \<open>
  The position of the first element equal to \<^verbatim>\<open>"c"\<close>, as \<^verbatim>\<open>"c" in axes\<close> and
  \<^verbatim>\<open>axes.index("c")\<close> search a list: from the left, comparing with \<^verbatim>\<open>==\<close>. Only the
  string \<^verbatim>\<open>"c"\<close> is equal to it; comparing an array with a string is left to numpy.
\<close>

fun find_c :: "'c pyval list \<Rightarrow> error + nat option" where
  "find_c [] = Inr None"
| "find_c (PyStr s # xs) =
     (if s = ''c'' then Inr (Some 0)
      else and_then (find_c xs) (\<lambda>r. Inr (map_option Suc r)))"
| "find_c (PyArray a # xs) = Inl Unmodelled"
| "find_c (x # xs) = and_then (find_c xs) (\<lambda>r. Inr (map_option Suc r))"

fun position :: "'a \<Rightarrow> 'a list \<Rightarrow> nat option" where
  "position y [] = None"
| "position y (x # xs) = (if x = y then Some 0 else map_option Suc (position y xs))"

definition py_contains_c :: "'c heap \<Rightarrow> 'c pyval \<Rightarrow> error + bool" where
  "py_contains_c h v =
     (case v of
        PyList a \<Rightarrow> and_then (find_c (h a)) (\<lambda>r. Inr (r \<noteq> None))
      | PyStr s \<Rightarrow> Inr (position (CHR ''c'') s \<noteq> None)
      | PyDict d \<Rightarrow> Inr (map_of d (KStr ''c'') \<noteq> None)
      | PyArray _ \<Rightarrow> Inl Unmodelled
      | PyColormap _ \<Rightarrow> Inl Unmodelled
      | _ \<Rightarrow> Inl TypeError)"

definition py_index_c :: "'c heap \<Rightarrow> 'c pyval \<Rightarrow> error + nat" where
  "py_index_c h v =
     (case v of
        PyList a \<Rightarrow>
          and_then (find_c (h a)) (\<lambda>r. case r of None \<Rightarrow> Inl ValueError | Some i \<Rightarrow> Inr i)
      | PyStr s \<Rightarrow>
          (case position (CHR ''c'') s of None \<Rightarrow> Inl ValueError | Some i \<Rightarrow> Inr i)
      | _ \<Rightarrow> Inl AttributeError)"

section \<open>Nodes and layers\<close>

text \<open>
  A node has its \<^verbatim>\<open>data\<close> (None or a list of arrays), its \<^verbatim>\<open>metadata\<close> dict, and
  answers \<^verbatim>\<open>node.load(Label)\<close>, here the flag \<open>is_label\<close>. The metadata dict of a node is
  only looked up by key, so it is a map.

  The \<^verbatim>\<open>metadata\<close> dict of a result holds the keys of \<^verbatim>\<open>METADATA_KEYS\<close> that were copied
  (\<open>known\<close>), and the two keys \<^verbatim>\<open>"channel_axis"\<close> and \<^verbatim>\<open>"properties"\<close>, which are not among
  them; the value None of these two fields means that the key is absent.
\<close>

record 'c node =
  data :: "real ndarray list option"
  is_label :: bool
  metadata :: "string \<rightharpoonup> 'c pyval"

record 'c layer_metadata =
  known :: "string \<rightharpoonup> 'c pyval"
  channel_axis :: "nat option"
  properties :: "'c columns option"

type_synonym 'c layer = "real ndarray list \<times> 'c layer_metadata \<times> string"

definition METADATA_KEYS :: "string list" where
  "METADATA_KEYS = [''name'', ''visible'', ''contrast_limits'', ''colormap'',
                    ''metadata'', ''affine'', ''blending'']"

text \<open>
  Lines 101-103 and 128-130: \<^verbatim>\<open>metadata[x] = node.metadata[x]\<close> for every known key
  present. The value is copied as it is: for a list, its address.
\<close>

definition copy_known :: "(string \<rightharpoonup> 'c pyval) \<Rightarrow> (string \<rightharpoonup> 'c pyval)" where
  "copy_known node_metadata =
     fold (\<lambda>x m. case node_metadata x of None \<Rightarrow> m | Some v \<Rightarrow> m(x \<mapsto> v))
          METADATA_KEYS Map.empty"

text \<open>Lines 99-114, the label node.\<close>

definition label_layer ::
  "'c node \<Rightarrow> real ndarray list \<Rightarrow> nat list
   \<Rightarrow> error + (real ndarray list \<times> 'c layer_metadata)" where
  "label_layer node d shp =
     (let md = \<lparr>known = copy_known (metadata node), channel_axis = None, properties = None\<rparr>
      in if length shp = 5 then
           and_then (case known md ''affine'' of
                       None \<Rightarrow> Inl KeyError
                     | Some affine \<Rightarrow> reduce_affine 1 affine) (\<lambda>affine'.
           and_then (map_err take_first_axis1 d) (\<lambda>d'.
             Inr (d', md\<lparr>known := (known md)(''affine'' \<mapsto> affine')\<rparr>)))
         else Inr (d, md))"

text \<open>
  Lines 116-123. \<^verbatim>\<open>CHANNEL_DIMENSION\<close> is a constant of \<^verbatim>\<open>ome_zarr.data\<close>, an index
  into the shape: a parameter here.
\<close>

definition find_channel_axis ::
  "nat \<Rightarrow> 'c heap \<Rightarrow> (string \<rightharpoonup> 'c pyval) \<Rightarrow> nat list \<Rightarrow> error + nat option" where
  "find_channel_axis CHANNEL_DIMENSION h node_metadata shp =
     (case node_metadata ''axes'' of
        Some axes \<Rightarrow>
          and_then (py_contains_c h axes) (\<lambda>has_c.
            if has_c then and_then (py_index_c h axes) (\<lambda>i. Inr (Some i))
            else Inr None)
      | None \<Rightarrow>
          if CHANNEL_DIMENSION < length shp then
            (if 1 < shp ! CHANNEL_DIMENSION then Inr (Some CHANNEL_DIMENSION) else Inr None)
          else Inl IndexError)"

text \<open>
  Lines 139-144: \<^verbatim>\<open>try: metadata[x] = node.metadata[x][0]; except Exception: pass\<close>.
  Every Python exception is swallowed.
\<close>

fun first_items ::
  "'c heap \<Rightarrow> (string \<rightharpoonup> 'c pyval) \<Rightarrow> string list \<Rightarrow> (string \<rightharpoonup> 'c pyval)
   \<Rightarrow> error + (string \<rightharpoonup> 'c pyval)" where
  "first_items h node_metadata [] m = Inr m"
| "first_items h node_metadata (x # xs) m =
     (case node_metadata x of
        None \<Rightarrow> first_items h node_metadata xs m
      | Some v \<Rightarrow>
          (case getitem0 h v of
             Inr e \<Rightarrow> first_items h node_metadata xs (m(x \<mapsto> e))
           | Inl Unmodelled \<Rightarrow> Inl Unmodelled
           | Inl _ \<Rightarrow> first_items h node_metadata xs m))"

text \<open>Lines 116-144, the image node.\<close>

definition image_layer ::
  "nat \<Rightarrow> 'c heap \<Rightarrow> 'c node \<Rightarrow> nat list \<Rightarrow> error + 'c layer_metadata" where
  "image_layer CHANNEL_DIMENSION h node shp =
     and_then (find_channel_axis CHANNEL_DIMENSION h (metadata node) shp) (\<lambda>axis.
       case axis of
         Some c \<Rightarrow>
           (let md = \<lparr>known = copy_known (metadata node), channel_axis = Some c,
                      properties = None\<rparr>
            in case known md ''affine'' of
                 None \<Rightarrow> Inr md
               | Some PyNone \<Rightarrow> Inr md
               | Some affine \<Rightarrow>
                   and_then (reduce_affine c affine) (\<lambda>affine'.
                     Inr (md\<lparr>known := (known md)(''affine'' \<mapsto> affine')\<rparr>)))
       | None \<Rightarrow>
           and_then (first_items h (metadata node) METADATA_KEYS Map.empty) (\<lambda>k.
             Inr \<lparr>known = k, channel_axis = None, properties = None\<rparr>))"

section \<open>Colormap normalization\<close>

text \<open>
  Lines 147-150. \<^verbatim>\<open>cms[idx] = ...\<close> writes into the list object \<^verbatim>\<open>cms\<close> itself, that
  is, into the store.
\<close>

text \<open>
  \<^verbatim>\<open>isinstance(cm, Colormap)\<close>: only a colour-map object can be an instance, and
  vispy says which are.
\<close>

definition is_Colormap :: "'c vispy \<Rightarrow> 'c pyval \<Rightarrow> bool" where
  "is_Colormap ext cm = (case cm of PyColormap c \<Rightarrow> isinstance_Colormap ext c | _ \<Rightarrow> False)"

text \<open>
  \<^verbatim>\<open>get_colormap(cm) if isinstance(cm, str) else Colormap(cm)\<close>. The result is the object
  that vispy returned, whatever its class.
\<close>

definition realize :: "'c vispy \<Rightarrow> 'c heap \<Rightarrow> 'c pyval \<Rightarrow> error + 'c" where
  "realize ext h cm = (case cm of PyStr name \<Rightarrow> get_colormap ext name | _ \<Rightarrow> Colormap ext h cm)"

fun normalize_entries :: "'c vispy \<Rightarrow> addr \<Rightarrow> nat list \<Rightarrow> 'c heap \<Rightarrow> error + 'c heap" where
  "normalize_entries ext cms [] h = Inr h"
| "normalize_entries ext cms (idx # rest) h =
     (if is_Colormap ext (h cms ! idx) then normalize_entries ext cms rest h
      else
        and_then (realize ext h (h cms ! idx)) (\<lambda>c.
          normalize_entries ext cms rest (h(cms := (h cms)[idx := PyColormap c]))))"

text \<open>
  \<^verbatim>\<open>cms = metadata.get("colormap", [])\<close> is a list in the intended use. A string is
  iterated by character and cannot be assigned to; None and numbers cannot be iterated.
  An empty dict or array gives no iteration; on a non-empty dict, a non-empty array or
  a colour-map object the outcome is decided by numpy and vispy.
\<close>

definition normalize_colormaps ::
  "'c vispy \<Rightarrow> 'c heap \<Rightarrow> 'c layer_metadata \<Rightarrow> error + 'c heap" where
  "normalize_colormaps ext h md =
     (case known md ''colormap'' of
        None \<Rightarrow> Inr h
      | Some (PyList cms) \<Rightarrow> normalize_entries ext cms [0..<length (h cms)] h
      | Some (PyStr s) \<Rightarrow>
          (case s of
             [] \<Rightarrow> Inr h
           | c # _ \<Rightarrow> and_then (get_colormap ext [c]) (\<lambda>_. Inl TypeError))
      | Some (PyDict d) \<Rightarrow> (if d = [] then Inr h else Inl Unmodelled)
      | Some (PyArray a) \<Rightarrow>
          (case shape a of
             [] \<Rightarrow> Inl TypeError
           | n # _ \<Rightarrow> if n = 0 then Inr h else Inl Unmodelled)
      | Some (PyColormap _) \<Rightarrow> Inl Unmodelled
      | Some _ \<Rightarrow> Inl TypeError)"

section \<open>transform\<close>

text \<open>
  \<^verbatim>\<open>node.metadata.get("properties")\<close> as the argument of \<^verbatim>\<open>transform_properties\<close>:
  \<^verbatim>\<open>props.items()\<close> and \<^verbatim>\<open>props_dict.keys()\<close> raise AttributeError on anything but a
  dict, in the first loop, before any result is built.
\<close>

definition node_properties :: "(string \<rightharpoonup> 'c pyval) \<Rightarrow> error + 'c props option" where
  "node_properties node_metadata =
     (case node_metadata ''properties'' of
        None \<Rightarrow> Inr None
      | Some PyNone \<Rightarrow> Inr None
      | Some (PyDict d) \<Rightarrow>
          and_then (map_err (\<lambda>(label_id, v). case v of PyDict props_dict \<Rightarrow> Inr (label_id, props_dict)
                                                | _ \<Rightarrow> Inl AttributeError) d)
                   (\<lambda>ps. Inr (Some ps))
      | Some _ \<Rightarrow> Inl AttributeError)"

text \<open>
  Lines 90-158, the body of the loop for one node: the record appended to \<^verbatim>\<open>results\<close>
  (None when the node is skipped) and the store after it.
\<close>

definition transform_node ::
  "'c vispy \<Rightarrow> nat \<Rightarrow> 'c heap \<Rightarrow> 'c node \<Rightarrow> error + ('c layer option \<times> 'c heap)" where
  "transform_node ext CHANNEL_DIMENSION h node =
     (case data node of
        None \<Rightarrow> Inr (None, h)
      | Some d \<Rightarrow>
          if length d < 1 then Inr (None, h)
          else
            and_then
              (if is_label node then
                 and_then (label_layer node d (shape (d ! 0))) (\<lambda>(d', md).
                   Inr (d', md, ''labels''))
               else
                 and_then (image_layer CHANNEL_DIMENSION h node (shape (d ! 0))) (\<lambda>md.
                   Inr (d, md, ''image'')))
              (\<lambda>(d', md, layer_type).
                 and_then (normalize_colormaps ext h md) (\<lambda>h'.
                 and_then (node_properties (metadata node)) (\<lambda>props.
                   Inr (Some (d', md\<lparr>properties := transform_properties props\<rparr>, layer_type),
                        h')))))"

text \<open>
  Lines 86-160, the function \<^verbatim>\<open>f\<close>. It is a closure over the iterator \<^verbatim>\<open>nodes\<close>:
  a call runs the loop over what the iterator still yields. \<open>f\<close> takes the iterator
  and returns what is left of it after the call, and either the exception that ended
  the call or \<^verbatim>\<open>results\<close> with the store. An exception in the body of the loop leaves
  the nodes not yet reached in the iterator.
\<close>

fun f_loop ::
  "'c vispy \<Rightarrow> nat \<Rightarrow> 'c node list \<Rightarrow> 'c layer list \<Rightarrow> 'c heap
   \<Rightarrow> 'c node list \<times> (error + 'c layer list \<times> 'c heap)" where
  "f_loop ext CHANNEL_DIMENSION [] results h = ([], Inr (results, h))"
| "f_loop ext CHANNEL_DIMENSION (node # nodes) results h =
     (case transform_node ext CHANNEL_DIMENSION h node of
        Inl e \<Rightarrow> (nodes, Inl e)
      | Inr (None, h') \<Rightarrow> f_loop ext CHANNEL_DIMENSION nodes results h'
      | Inr (Some rv, h') \<Rightarrow> f_loop ext CHANNEL_DIMENSION nodes (results @ [rv]) h')"

definition f ::
  "'c vispy \<Rightarrow> nat \<Rightarrow> 'c node list \<Rightarrow> 'c heap
   \<Rightarrow> 'c node list \<times> (error + 'c layer list \<times> 'c heap)" where
  "f ext CHANNEL_DIMENSION nodes h = f_loop ext CHANNEL_DIMENSION nodes [] h"

text \<open>
  \<^verbatim>\<open>transform(nodes)\<close> only builds the closure. A reader function is the iterator it
  has captured; \<open>invoke\<close> is a call of it, which leaves the reader function with the
  iterator as the call left it.
\<close>

datatype 'c reader_function = ReaderFunction (captured: "'c node list")

definition transform :: "'c node list \<Rightarrow> 'c reader_function" where
  "transform nodes = ReaderFunction nodes"

definition invoke ::
  "'c vispy \<Rightarrow> nat \<Rightarrow> 'c reader_function \<Rightarrow> 'c heap
   \<Rightarrow> 'c reader_function \<times> (error + 'c layer list \<times> 'c heap)" where
  "invoke ext CHANNEL_DIMENSION rf h =
     (case f ext CHANNEL_DIMENSION (captured rf) h of
        (rest, outcome) \<Rightarrow> (ReaderFunction rest, outcome))"

text \<open>A node with data: \<^verbatim>\<open>data is None or len(data) < 1\<close> is false.\<close>

definition has_data :: "'c node \<Rightarrow> bool" where
  "has_data node = (case data node of None \<Rightarrow> False | Some d \<Rightarrow> \<not> length d < 1)"

section \<open>napari_get_reader\<close>

text \<open>
  \<^verbatim>\<open>path\<close> is a string or a list of strings. \<^verbatim>\<open>parse_url\<close> and \<^verbatim>\<open>Reader\<close> belong to
  ome_zarr and are parameters: \<^verbatim>\<open>parse_url\<close> returns a location or None, and
  \<^verbatim>\<open>Reader(zarr)()\<close> is the iterator of nodes. The result lists the warnings issued and
  the arguments \<^verbatim>\<open>parse_url\<close> was called with, in order, and holds what is returned:
  a reader function or None.
\<close>

datatype path_like = Path string | Paths "string list"

record call_log =
  warnings :: "string list"
  parse_url_calls :: "string list"

definition resolve ::
  "(string \<Rightarrow> 'z option) \<Rightarrow> ('z \<Rightarrow> 'c node list) \<Rightarrow> string list \<Rightarrow> string
   \<Rightarrow> call_log \<times> (error + 'c reader_function option)" where
  "resolve parse_url reader w p =
     (\<lparr>warnings = w, parse_url_calls = [p]\<rparr>,
      Inr (case parse_url p of
             Some zarr \<Rightarrow> Some (transform (reader zarr))
           | None \<Rightarrow> None))"

definition napari_get_reader ::
  "(string \<Rightarrow> 'z option) \<Rightarrow> ('z \<Rightarrow> 'c node list) \<Rightarrow> path_like
   \<Rightarrow> call_log \<times> (error + 'c reader_function option)" where
  "napari_get_reader parse_url reader path =
     (case path of
        Paths ps \<Rightarrow>
          (let w = (if 1 < length ps
                    then [''more than one path is not currently supported''] else [])
           in case ps of
                [] \<Rightarrow> (\<lparr>warnings = w, parse_url_calls = []\<rparr>, Inl IndexError)
              | p # _ \<Rightarrow> resolve parse_url reader w p)
      | Path p \<Rightarrow> resolve parse_url reader [] p)"

text \<open>
  For the statements below: the list at an address of the store after a step that has
  returned, and the row of the input matrix that row \<open>i\<close> of the result comes from,
  when row \<open>c\<close> is deleted.
\<close>

definition list_after :: "error + ('r \<times> 'c heap) \<Rightarrow> addr \<Rightarrow> 'c pyval list option" where
  "list_after outcome a = (case outcome of Inl e \<Rightarrow> None | Inr (r, h') \<Rightarrow> Some (h' a))"

definition skip_index :: "nat \<Rightarrow> nat \<Rightarrow> nat" where
  "skip_index c i = (if i < c then i else Suc i)"

text \<open>The value is one of vispy's colour-map objects.\<close>

definition is_realized :: "'c pyval \<Rightarrow> bool" where
  "is_realized cm = (case cm of PyColormap _ \<Rightarrow> True | _ \<Rightarrow> False)"

section \<open>Example inputs\<close>

text \<open>
  A vispy that knows the colour maps \<^verbatim>\<open>"reds"\<close> and \<^verbatim>\<open>"greens"\<close>, which are
  instances of \<^verbatim>\<open>Colormap\<close>, and \<^verbatim>\<open>"hot"\<close>, which is not, and whose constructor
  raises; a store with a colormap list, a list of axes, a list of \<^verbatim>\<open>Colormap\<close>
  instances, contrast limits and the colormap list \<^verbatim>\<open>["hot"]\<close>; a 6 by 6 matrix whose
  entry at \<open>[i, j]\<close> is \<open>10 * i + j\<close>; arrays of pixels.
\<close>

definition example_vispy :: "nat vispy" where
  "example_vispy =
     \<lparr>get_colormap = (\<lambda>name. if name = ''reds'' then Inr 0
                              else if name = ''greens'' then Inr 1
                              else if name = ''hot'' then Inr 2 else Inl KeyError),
      Colormap = (\<lambda>h colors. Inl TypeError),
      isinstance_Colormap = (\<lambda>c. c \<noteq> 2)\<rparr>"

definition example_heap :: "nat heap" where
  "example_heap =
     (\<lambda>a. [])(0 := [PyStr ''reds'', PyColormap 1],
              1 := [PyStr ''t'', PyStr ''c'', PyStr ''y'', PyStr ''x''],
              2 := [PyColormap 0, PyColormap 1],
              3 := [PyInt 0, PyInt 255],
              4 := [PyList 3],
              5 := [PyStr ''hot''])"

definition example_affine :: "real ndarray" where
  "example_affine =
     \<lparr>shape = [6, 6],
      item = (\<lambda>ix. case ix of [i, j] \<Rightarrow> real (10 * i + j) | _ \<Rightarrow> 0)\<rparr>"

definition example_pixels :: "nat list \<Rightarrow> real ndarray" where
  "example_pixels shp = \<lparr>shape = shp, item = (\<lambda>ix. real (sum_list ix))\<rparr>"

text \<open>Nodes: an image with axes, a colormap list and an affine matrix; an image
  without axes, of a given shape; a label node with five dimensions and no affine
  matrix; and a sequence of nodes, two of them without data.\<close>

definition example_image :: "nat node" where
  "example_image =
     \<lparr>data = Some [example_pixels [1, 2, 4, 4]], is_label = False,
      metadata = [''axes'' \<mapsto> PyList 1, ''colormap'' \<mapsto> PyList 0,
                  ''affine'' \<mapsto> PyArray example_affine, ''name'' \<mapsto> PyStr ''cells'']\<rparr>"

definition example_legacy :: "nat list \<Rightarrow> nat node" where
  "example_legacy shp =
     \<lparr>data = Some [example_pixels shp], is_label = False,
      metadata = [''name'' \<mapsto> PyStr ''cells'', ''visible'' \<mapsto> PyBool True,
                  ''contrast_limits'' \<mapsto> PyList 4]\<rparr>"

definition example_label :: "nat node" where
  "example_label =
     \<lparr>data = Some [example_pixels [1, 1, 1, 4, 4]], is_label = True,
      metadata = [''name'' \<mapsto> PyStr ''nuclei'']\<rparr>"

definition example_nodes :: "nat node list" where
  "example_nodes =
     [example_legacy [1, 1, 1, 4, 4], example_image\<lparr>data := None\<rparr>,
      example_image\<lparr>data := Some []\<rparr>, example_image]"

section \<open>Basic facts\<close>

lemma and_then_simps [simp]:
  "and_then (Inl e) g = Inl e"
  "and_then (Inr x) g = g x"
  by (simp_all add: and_then_def)

lemma and_then_Inr_iff:
  "and_then r g = Inr y \<longleftrightarrow> (\<exists>x. r = Inr x \<and> g x = Inr y)"
  by (cases r) simp_all

lemma fold_copy:
  "fold (\<lambda>x m. case nmd x of None \<Rightarrow> m | Some v \<Rightarrow> m(x \<mapsto> v)) xs m0 y =
     (if y \<in> set xs then (case nmd y of None \<Rightarrow> m0 y | Some v \<Rightarrow> Some v) else m0 y)"
  by (induction xs arbitrary: m0) (auto split: option.splits)

lemma copy_known_apply:
  "copy_known nmd y = (if y \<in> set METADATA_KEYS then nmd y else None)"
  unfolding copy_known_def fold_copy by (simp split: option.splits)

lemma upt_split_at:
  assumes "c < n"
  shows "[0..<n] = [0..<c] @ c # [Suc c..<n]"
  using assms by (metis le_add_diff_inverse less_imp_le_nat upt_add_eq_append upt_conv_Cons zero_le)

lemma true_positions_dim:
  assumes "c < n"
  shows "true_positions ((replicate n True)[c := False]) = [0..<c] @ [Suc c..<n]"
proof -
  have "filter (\<lambda>i. ((replicate n True)[c := False]) ! i) [0..<n] = filter (\<lambda>i. i \<noteq> c) [0..<n]"
    by (rule filter_cong) (auto simp: nth_list_update)
  also have "\<dots> = filter (\<lambda>i. i \<noteq> c) ([0..<c] @ c # [Suc c..<n])"
    using upt_split_at [OF assms] by simp
  also have "\<dots> = [0..<c] @ [Suc c..<n]"
    by (auto intro: filter_True)
  finally show ?thesis by (simp add: true_positions_def)
qed

lemma true_positions_nth:
  assumes "c < n" "i < n - 1"
  shows "true_positions ((replicate n True)[c := False]) ! i = skip_index c i"
  using assms by (auto simp: true_positions_dim nth_append skip_index_def)

lemma is_realized_iff: "is_realized cm \<longleftrightarrow> (\<exists>c. cm = PyColormap c)"
  by (cases cm) (simp_all add: is_realized_def)

lemma is_Colormap_realized: "is_Colormap ext cm \<Longrightarrow> is_realized cm"
  by (cases cm) (simp_all add: is_Colormap_def is_realized_def)

lemma normalize_entries_all_Colormap:
  "(\<And>i. i \<in> set idxs \<Longrightarrow> is_Colormap ext (h cms ! i)) \<Longrightarrow>
   normalize_entries ext cms idxs h = Inr h"
  by (induction idxs) simp_all

text \<open>
  What a pass that returns has done: outside the list nothing; in the list, at the
  indexes it went through, an instance of \<^verbatim>\<open>Colormap\<close> is left and anything else is
  replaced by the object that vispy returned for it. \<open>h0\<close> is the store at the time of
  that call.
\<close>

lemma normalize_entries_exact:
  assumes "normalize_entries ext cms idxs h = Inr h'" "distinct idxs"
    "\<And>i. i \<in> set idxs \<Longrightarrow> i < length (h cms)"
  shows "(\<forall>a. a \<noteq> cms \<longrightarrow> h' a = h a) \<and> length (h' cms) = length (h cms) \<and>
         (\<forall>i<length (h cms).
            (i \<notin> set idxs \<longrightarrow> h' cms ! i = h cms ! i) \<and>
            (i \<in> set idxs \<and> is_Colormap ext (h cms ! i) \<longrightarrow> h' cms ! i = h cms ! i) \<and>
            (i \<in> set idxs \<and> \<not> is_Colormap ext (h cms ! i) \<longrightarrow>
               (\<exists>h0 c. (\<forall>a. a \<noteq> cms \<longrightarrow> h0 a = h a) \<and>
                       realize ext h0 (h cms ! i) = Inr c \<and> h' cms ! i = PyColormap c)))"
  using assms
proof (induction idxs arbitrary: h)
  case Nil
  then show ?case by simp
next
  case (Cons idx rest)
  have idx: "idx < length (h cms)" "idx \<notin> set rest" "distinct rest"
    using Cons.prems(2,3) by auto
  show ?case
  proof (cases "is_Colormap ext (h cms ! idx)")
    case True
    with Cons.prems(1) have run: "normalize_entries ext cms rest h = Inr h'" by simp
    have "\<And>i. i \<in> set rest \<Longrightarrow> i < length (h cms)" using Cons.prems(3) by simp
    from Cons.IH [OF run idx(3) this]
    have ih: "\<forall>a. a \<noteq> cms \<longrightarrow> h' a = h a" "length (h' cms) = length (h cms)"
      "\<forall>i<length (h cms).
            (i \<notin> set rest \<longrightarrow> h' cms ! i = h cms ! i) \<and>
            (i \<in> set rest \<and> is_Colormap ext (h cms ! i) \<longrightarrow> h' cms ! i = h cms ! i) \<and>
            (i \<in> set rest \<and> \<not> is_Colormap ext (h cms ! i) \<longrightarrow>
               (\<exists>h0 c. (\<forall>a. a \<noteq> cms \<longrightarrow> h0 a = h a) \<and>
                       realize ext h0 (h cms ! i) = Inr c \<and> h' cms ! i = PyColormap c))"
      by blast+
    have "\<forall>i<length (h cms).
            (i \<notin> set (idx # rest) \<longrightarrow> h' cms ! i = h cms ! i) \<and>
            (i \<in> set (idx # rest) \<and> is_Colormap ext (h cms ! i) \<longrightarrow> h' cms ! i = h cms ! i) \<and>
            (i \<in> set (idx # rest) \<and> \<not> is_Colormap ext (h cms ! i) \<longrightarrow>
               (\<exists>h0 c. (\<forall>a. a \<noteq> cms \<longrightarrow> h0 a = h a) \<and>
                       realize ext h0 (h cms ! i) = Inr c \<and> h' cms ! i = PyColormap c))"
    proof (intro allI impI)
      fix i assume i: "i < length (h cms)"
      show "(i \<notin> set (idx # rest) \<longrightarrow> h' cms ! i = h cms ! i) \<and>
            (i \<in> set (idx # rest) \<and> is_Colormap ext (h cms ! i) \<longrightarrow> h' cms ! i = h cms ! i) \<and>
            (i \<in> set (idx # rest) \<and> \<not> is_Colormap ext (h cms ! i) \<longrightarrow>
               (\<exists>h0 c. (\<forall>a. a \<noteq> cms \<longrightarrow> h0 a = h a) \<and>
                       realize ext h0 (h cms ! i) = Inr c \<and> h' cms ! i = PyColormap c))"
      proof (cases "i = idx")
        case True
        with ih(3) i idx(2) \<open>is_Colormap ext (h cms ! idx)\<close> show ?thesis by simp
      next
        case False
        with ih(3) i show ?thesis by simp
      qed
    qed
    with ih(1,2) show ?thesis by blast
  next
    case False
    with Cons.prems(1) obtain c where
      c: "realize ext h (h cms ! idx) = Inr c" and
      run: "normalize_entries ext cms rest (h(cms := (h cms)[idx := PyColormap c])) = Inr h'"
      by (auto simp: and_then_Inr_iff)
    let ?h1 = "h(cms := (h cms)[idx := PyColormap c])"
    have "\<And>i. i \<in> set rest \<Longrightarrow> i < length (?h1 cms)" using Cons.prems(3) by simp
    from Cons.IH [OF run idx(3) this]
    have ih: "\<forall>a. a \<noteq> cms \<longrightarrow> h' a = ?h1 a" "length (h' cms) = length (?h1 cms)"
      "\<forall>i<length (?h1 cms).
            (i \<notin> set rest \<longrightarrow> h' cms ! i = ?h1 cms ! i) \<and>
            (i \<in> set rest \<and> is_Colormap ext (?h1 cms ! i) \<longrightarrow> h' cms ! i = ?h1 cms ! i) \<and>
            (i \<in> set rest \<and> \<not> is_Colormap ext (?h1 cms ! i) \<longrightarrow>
               (\<exists>h0 c. (\<forall>a. a \<noteq> cms \<longrightarrow> h0 a = ?h1 a) \<and>
                       realize ext h0 (?h1 cms ! i) = Inr c \<and> h' cms ! i = PyColormap c))"
      by blast+
    have a: "\<forall>a. a \<noteq> cms \<longrightarrow> h' a = h a" using ih(1) by simp
    have b: "length (h' cms) = length (h cms)" using ih(2) by simp
    have "\<forall>i<length (h cms).
            (i \<notin> set (idx # rest) \<longrightarrow> h' cms ! i = h cms ! i) \<and>
            (i \<in> set (idx # rest) \<and> is_Colormap ext (h cms ! i) \<longrightarrow> h' cms ! i = h cms ! i) \<and>
            (i \<in> set (idx # rest) \<and> \<not> is_Colormap ext (h cms ! i) \<longrightarrow>
               (\<exists>h0 c. (\<forall>a. a \<noteq> cms \<longrightarrow> h0 a = h a) \<and>
                       realize ext h0 (h cms ! i) = Inr c \<and> h' cms ! i = PyColormap c))"
    proof (intro allI impI)
      fix i assume i: "i < length (h cms)"
      then have i1: "i < length (?h1 cms)" by simp
      from ih(3) i1 have
        x: "i \<notin> set rest \<longrightarrow> h' cms ! i = ?h1 cms ! i"
        and y: "i \<in> set rest \<and> is_Colormap ext (?h1 cms ! i) \<longrightarrow> h' cms ! i = ?h1 cms ! i"
        and z: "i \<in> set rest \<and> \<not> is_Colormap ext (?h1 cms ! i) \<longrightarrow>
               (\<exists>h0 c. (\<forall>a. a \<noteq> cms \<longrightarrow> h0 a = ?h1 a) \<and>
                       realize ext h0 (?h1 cms ! i) = Inr c \<and> h' cms ! i = PyColormap c)"
        by blast+
      show "(i \<notin> set (idx # rest) \<longrightarrow> h' cms ! i = h cms ! i) \<and>
            (i \<in> set (idx # rest) \<and> is_Colormap ext (h cms ! i) \<longrightarrow> h' cms ! i = h cms ! i) \<and>
            (i \<in> set (idx # rest) \<and> \<not> is_Colormap ext (h cms ! i) \<longrightarrow>
               (\<exists>h0 c. (\<forall>a. a \<noteq> cms \<longrightarrow> h0 a = h a) \<and>
                       realize ext h0 (h cms ! i) = Inr c \<and> h' cms ! i = PyColormap c))"
      proof (cases "i = idx")
        case True
        with x idx(1,2) have "h' cms ! i = PyColormap c" by simp
        with True c False show ?thesis by auto
      next
        case neq: False
        then have same: "?h1 cms ! i = h cms ! i" by simp
        from x y z show ?thesis unfolding same using neq by auto
      qed
    qed
    with a b show ?thesis by blast
  qed
qed

lemma transform_node_skipped:
  "\<not> has_data node \<Longrightarrow> transform_node ext CD h node = Inr (None, h)"
  by (auto simp: has_data_def transform_node_def split: option.splits)

lemma transform_node_SomeD:
  assumes "transform_node ext CD h node = Inr (Some (d', md', k), h')"
  obtains d md props where
    "data node = Some d" "d \<noteq> []"
    "is_label node \<Longrightarrow> label_layer node d (shape (d ! 0)) = Inr (d', md) \<and> k = ''labels''"
    "\<not> is_label node \<Longrightarrow> image_layer CD h node (shape (d ! 0)) = Inr md \<and> d' = d \<and> k = ''image''"
    "normalize_colormaps ext h md = Inr h'"
    "node_properties (metadata node) = Inr props"
    "md' = md\<lparr>properties := transform_properties props\<rparr>"
  using assms
  by (auto simp: transform_node_def and_then_Inr_iff split: option.splits if_splits)

lemma transform_node_NoneD:
  assumes "transform_node ext CD h node = Inr (None, h')"
  shows "\<not> has_data node \<and> h' = h"
  using assms
  by (auto simp: transform_node_def has_data_def and_then_Inr_iff split: option.splits if_splits)

lemma normalize_colormaps_other:
  assumes "normalize_colormaps ext h md = Inr h'"
    "\<And>cms. known md ''colormap'' \<noteq> Some (PyList cms)"
  shows "h' = h"
proof (cases "known md ''colormap''")
  case None
  with assms(1) show ?thesis by (simp add: normalize_colormaps_def)
next
  case (Some v)
  with assms show ?thesis
    by (cases v) (auto simp: normalize_colormaps_def and_then_Inr_iff split: list.splits if_splits)
qed

lemma normalize_colormaps_exact:
  assumes "normalize_colormaps ext h md = Inr h'"
  shows "(\<forall>a. known md ''colormap'' \<noteq> Some (PyList a) \<longrightarrow> h' a = h a) \<and>
         (\<forall>cms. known md ''colormap'' = Some (PyList cms) \<longrightarrow>
            length (h' cms) = length (h cms) \<and>
            (\<forall>i<length (h cms).
               (is_Colormap ext (h cms ! i) \<longrightarrow> h' cms ! i = h cms ! i) \<and>
               (\<not> is_Colormap ext (h cms ! i) \<longrightarrow>
                  (\<exists>h0 c. (\<forall>a. a \<noteq> cms \<longrightarrow> h0 a = h a) \<and>
                          realize ext h0 (h cms ! i) = Inr c \<and> h' cms ! i = PyColormap c))))"
proof (cases "\<exists>cms. known md ''colormap'' = Some (PyList cms)")
  case True
  then obtain cms where cms: "known md ''colormap'' = Some (PyList cms)" by blast
  with assms have run: "normalize_entries ext cms [0..<length (h cms)] h = Inr h'"
    by (simp add: normalize_colormaps_def)
  have "\<And>i. i \<in> set [0..<length (h cms)] \<Longrightarrow> i < length (h cms)" by simp
  from normalize_entries_exact [OF run distinct_upt this]
  have ex: "\<forall>a. a \<noteq> cms \<longrightarrow> h' a = h a" "length (h' cms) = length (h cms)"
    "\<forall>i<length (h cms).
            (i \<notin> set [0..<length (h cms)] \<longrightarrow> h' cms ! i = h cms ! i) \<and>
            (i \<in> set [0..<length (h cms)] \<and> is_Colormap ext (h cms ! i) \<longrightarrow>
               h' cms ! i = h cms ! i) \<and>
            (i \<in> set [0..<length (h cms)] \<and> \<not> is_Colormap ext (h cms ! i) \<longrightarrow>
               (\<exists>h0 c. (\<forall>a. a \<noteq> cms \<longrightarrow> h0 a = h a) \<and>
                       realize ext h0 (h cms ! i) = Inr c \<and> h' cms ! i = PyColormap c))"
    by blast+
  have 1: "\<forall>a. known md ''colormap'' \<noteq> Some (PyList a) \<longrightarrow> h' a = h a"
    using ex(1) cms by auto
  have 2: "\<forall>i<length (h cms).
               (is_Colormap ext (h cms ! i) \<longrightarrow> h' cms ! i = h cms ! i) \<and>
               (\<not> is_Colormap ext (h cms ! i) \<longrightarrow>
                  (\<exists>h0 c. (\<forall>a. a \<noteq> cms \<longrightarrow> h0 a = h a) \<and>
                          realize ext h0 (h cms ! i) = Inr c \<and> h' cms ! i = PyColormap c))"
    using ex(3) by simp
  from 1 2 ex(2) cms show ?thesis by simp
next
  case False
  then have "h' = h" using normalize_colormaps_other [OF assms] by blast
  with False show ?thesis by simp
qed

text \<open>
  A second pass after a pass that has returned changes nothing, provided that vispy's
  two functions return instances of \<^verbatim>\<open>Colormap\<close>. Without that, it may raise: see
  \<open>normalize_hot_twice\<close> below.
\<close>

lemma normalize_colormaps_again:
  assumes "normalize_colormaps ext h md = Inr h'"
    and gc: "\<And>name c. get_colormap ext name = Inr c \<Longrightarrow> isinstance_Colormap ext c"
    and co: "\<And>h0 v c. Colormap ext h0 v = Inr c \<Longrightarrow> isinstance_Colormap ext c"
  shows "normalize_colormaps ext h' md = Inr h'"
proof (cases "\<exists>cms. known md ''colormap'' = Some (PyList cms)")
  case True
  then obtain cms where cms: "known md ''colormap'' = Some (PyList cms)" by blast
  have inst: "isinstance_Colormap ext c" if "realize ext h0 v = Inr c" for h0 v c
    using that gc co by (cases v) (auto simp: realize_def)
  from normalize_colormaps_exact [OF assms(1)] cms
  have len: "length (h' cms) = length (h cms)"
    and each: "\<forall>i<length (h cms).
               (is_Colormap ext (h cms ! i) \<longrightarrow> h' cms ! i = h cms ! i) \<and>
               (\<not> is_Colormap ext (h cms ! i) \<longrightarrow>
                  (\<exists>h0 c. (\<forall>a. a \<noteq> cms \<longrightarrow> h0 a = h a) \<and>
                          realize ext h0 (h cms ! i) = Inr c \<and> h' cms ! i = PyColormap c))"
    by blast+
  have "is_Colormap ext (h' cms ! i)" if "i < length (h' cms)" for i
  proof (cases "is_Colormap ext (h cms ! i)")
    case True
    with each that len show ?thesis by simp
  next
    case False
    with each that len obtain h0 c where
      "realize ext h0 (h cms ! i) = Inr c" "h' cms ! i = PyColormap c" by auto
    with inst show ?thesis by (simp add: is_Colormap_def)
  qed
  then have "normalize_entries ext cms [0..<length (h' cms)] h' = Inr h'"
    by (intro normalize_entries_all_Colormap) simp
  with cms show ?thesis by (simp add: normalize_colormaps_def)
next
  case False
  then have "h' = h" using normalize_colormaps_other [OF assms(1)] by blast
  with assms(1) show ?thesis by simp
qed

lemma getitem0_Unmodelled_iff: "getitem0 h v = Inl Unmodelled \<longleftrightarrow> is_realized v"
  by (cases v) (auto simp: getitem0_def is_realized_def split: list.splits option.splits)

lemma first_items_result:
  "first_items h nmd xs m = Inr m' \<Longrightarrow>
   m' y = (if y \<in> set xs
           then (case nmd y of
                   None \<Rightarrow> m y
                 | Some v \<Rightarrow> (case getitem0 h v of Inr e \<Rightarrow> Some e | Inl _ \<Rightarrow> m y))
           else m y)"
proof (induction xs arbitrary: m)
  case Nil
  then show ?case by simp
next
  case (Cons x xs)
  show ?case
  proof (cases "nmd x")
    case None
    with Cons.prems have "first_items h nmd xs m = Inr m'" by simp
    from Cons.IH [OF this] None show ?thesis by (auto split: option.splits)
  next
    case (Some v)
    show ?thesis
    proof (cases "getitem0 h v")
      case (Inr e)
      with Some Cons.prems have "first_items h nmd xs (m(x \<mapsto> e)) = Inr m'" by simp
      from Cons.IH [OF this] Some Inr show ?thesis by (auto split: option.splits sum.splits)
    next
      case (Inl err)
      with Some Cons.prems have "first_items h nmd xs m = Inr m'"
        by (cases err) simp_all
      from Cons.IH [OF this] Some Inl show ?thesis by (auto split: option.splits sum.splits)
    qed
  qed
qed

lemma first_items_error:
  "first_items h nmd xs m = Inl e \<Longrightarrow>
   e = Unmodelled \<and> (\<exists>x \<in> set xs. \<exists>v. nmd x = Some v \<and> is_realized v)"
proof (induction xs arbitrary: m)
  case Nil
  then show ?case by simp
next
  case (Cons x xs)
  show ?case
  proof (cases "nmd x")
    case None
    with Cons show ?thesis by auto
  next
    case (Some v)
    show ?thesis
    proof (cases "getitem0 h v")
      case (Inr y)
      with Some Cons show ?thesis by auto
    next
      case (Inl err)
      show ?thesis
      proof (cases "err = Unmodelled")
        case True
        with Inl Some Cons.prems have "e = Unmodelled" by simp
        moreover have "is_realized v"
          using Inl True getitem0_Unmodelled_iff [of h v] by simp
        ultimately show ?thesis using Some by auto
      next
        case False
        with Inl Some Cons.prems have "first_items h nmd xs m = Inl e"
          by (cases err) simp_all
        from Cons.IH [OF this] show ?thesis by auto
      qed
    qed
  qed
qed

lemma first_items_total:
  assumes "\<And>x v. x \<in> set xs \<Longrightarrow> nmd x = Some v \<Longrightarrow> \<not> is_realized v"
  shows "\<exists>m'. first_items h nmd xs m = Inr m'"
proof (cases "first_items h nmd xs m")
  case (Inl e)
  from first_items_error [OF this] assms show ?thesis by blast
next
  case (Inr m')
  then show ?thesis by blast
qed

lemma find_c_first:
  "i < length xs \<Longrightarrow> xs ! i = PyStr ''c'' \<Longrightarrow>
   (\<And>j. j < i \<Longrightarrow> xs ! j \<noteq> PyStr ''c'' \<and> (\<forall>a. xs ! j \<noteq> PyArray a)) \<Longrightarrow>
   find_c xs = Inr (Some i)"
proof (induction xs arbitrary: i)
  case Nil
  then show ?case by simp
next
  case (Cons x xs)
  show ?case
  proof (cases i)
    case 0
    with Cons.prems show ?thesis by simp
  next
    case (Suc i')
    have x: "x \<noteq> PyStr ''c''" "\<forall>a. x \<noteq> PyArray a"
      using Cons.prems(3) [of 0] Suc by auto
    have "find_c xs = Inr (Some i')"
    proof (rule Cons.IH)
      show "i' < length xs" using Cons.prems(1) Suc by simp
      show "xs ! i' = PyStr ''c''" using Cons.prems(2) Suc by simp
      show "xs ! j \<noteq> PyStr ''c'' \<and> (\<forall>a. xs ! j \<noteq> PyArray a)" if "j < i'" for j
        using Cons.prems(3) [of "Suc j"] that Suc by simp
    qed
    with x Suc show ?thesis by (cases x) auto
  qed
qed

lemma position_first:
  "i < length xs \<Longrightarrow> xs ! i = y \<Longrightarrow> (\<And>j. j < i \<Longrightarrow> xs ! j \<noteq> y) \<Longrightarrow> position y xs = Some i"
proof (induction xs arbitrary: i)
  case Nil
  then show ?case by simp
next
  case (Cons x xs)
  show ?case
  proof (cases i)
    case 0
    with Cons.prems show ?thesis by simp
  next
    case (Suc i')
    have x: "x \<noteq> y" using Cons.prems(3) [of 0] Suc by auto
    have "position y xs = Some i'"
    proof (rule Cons.IH)
      show "i' < length xs" using Cons.prems(1) Suc by simp
      show "xs ! i' = y" using Cons.prems(2) Suc by simp
      show "xs ! j \<noteq> y" if "j < i'" for j
        using Cons.prems(3) [of "Suc j"] that Suc by simp
    qed
    with x Suc show ?thesis by simp
  qed
qed

lemma reduce_affine_6x6:
  assumes "shape A = [6, 6]" "c < 6"
  shows "\<exists>B. reduce_affine c (PyArray A) = Inr (PyArray B) \<and> shape B = [5, 5] \<and>
             (\<forall>i<5. \<forall>j<5. item B [i, j] = item A [skip_index c i, skip_index c j])"
proof -
  let ?m = "(replicate 6 True)[c := False]"
  have tp: "true_positions ?m = [0..<c] @ [Suc c..<6]"
    using assms(2) by (rule true_positions_dim)
  have len: "length (true_positions ?m) = 5" using assms(2) by (simp add: tp)
  have nth: "true_positions ?m ! i = skip_index c i" if "i < 5" for i
    using true_positions_nth [of c 6 i] assms(2) that by simp
  show ?thesis
    using assms len nth
    by (simp add: reduce_affine_def dim_mask_def mask_axis0_def mask_axis1_def)
qed

section \<open>The steps of the loop body\<close>

lemma transform_node_imageD:
  assumes "transform_node ext CD h node = Inr (Some (d', md', k), h')"
    "\<not> is_label node" "data node = Some d"
  shows "\<exists>md props. image_layer CD h node (shape (d ! 0)) = Inr md \<and> d' = d \<and> k = ''image'' \<and>
           normalize_colormaps ext h md = Inr h' \<and>
           node_properties (metadata node) = Inr props \<and>
           md' = md\<lparr>properties := transform_properties props\<rparr>"
  using assms by (auto elim!: transform_node_SomeD)

lemma transform_node_labelD:
  assumes "transform_node ext CD h node = Inr (Some (d', md', k), h')"
    "is_label node" "data node = Some d"
  shows "\<exists>md props. label_layer node d (shape (d ! 0)) = Inr (d', md) \<and> k = ''labels'' \<and>
           normalize_colormaps ext h md = Inr h' \<and>
           node_properties (metadata node) = Inr props \<and>
           md' = md\<lparr>properties := transform_properties props\<rparr>"
  using assms by (auto elim!: transform_node_SomeD)

lemma transform_node_imageI:
  assumes "data node = Some d" "d \<noteq> []" "\<not> is_label node"
    "image_layer CD h node (shape (d ! 0)) = Inr md"
    "normalize_colormaps ext h md = Inr h'"
    "node_properties (metadata node) = Inr props"
  shows "transform_node ext CD h node =
           Inr (Some (d, md\<lparr>properties := transform_properties props\<rparr>, ''image''), h')"
  using assms by (cases d) (simp_all add: transform_node_def)

lemma transform_node_labelI:
  assumes "data node = Some d" "d \<noteq> []" "is_label node"
    "label_layer node d (shape (d ! 0)) = Inr (d', md)"
    "normalize_colormaps ext h md = Inr h'"
    "node_properties (metadata node) = Inr props"
  shows "transform_node ext CD h node =
           Inr (Some (d', md\<lparr>properties := transform_properties props\<rparr>, ''labels''), h')"
  using assms by (cases d) (simp_all add: transform_node_def)

lemma transform_node_Some_has_data:
  "transform_node ext CD h node = Inr (Some rv, h') \<Longrightarrow> has_data node"
  by (cases rv) (auto simp: has_data_def elim!: transform_node_SomeD)

lemma image_layer_channel_axis:
  assumes "image_layer CD h node shp = Inr md"
  shows "find_channel_axis CD h (metadata node) shp = Inr (channel_axis md)"
proof -
  from assms obtain axis where
    ax: "find_channel_axis CD h (metadata node) shp = Inr axis" and
    rest: "(case axis of
         Some c \<Rightarrow>
           (let md = \<lparr>known = copy_known (metadata node), channel_axis = Some c,
                      properties = None\<rparr>
            in case known md ''affine'' of
                 None \<Rightarrow> Inr md
               | Some PyNone \<Rightarrow> Inr md
               | Some affine \<Rightarrow>
                   and_then (reduce_affine c affine) (\<lambda>affine'.
                     Inr (md\<lparr>known := (known md)(''affine'' \<mapsto> affine')\<rparr>)))
       | None \<Rightarrow>
           and_then (first_items h (metadata node) METADATA_KEYS Map.empty) (\<lambda>k.
             Inr \<lparr>known = k, channel_axis = None, properties = None\<rparr>)) = Inr md"
    unfolding image_layer_def and_then_Inr_iff by blast
  have "channel_axis md = axis"
  proof (cases axis)
    case None
    with rest show ?thesis by (auto simp: and_then_Inr_iff)
  next
    case (Some c)
    show ?thesis
    proof (cases "copy_known (metadata node) ''affine''")
      case None
      with rest Some show ?thesis by (auto simp: Let_def)
    next
      case (Some v)
      with rest \<open>axis = Some c\<close> show ?thesis
        by (cases v) (auto simp: Let_def and_then_Inr_iff)
    qed
  qed
  with ax show ?thesis by simp
qed

lemma image_layer_multi_no_affine:
  assumes "find_channel_axis CD h (metadata node) shp = Inr (Some c)"
    "metadata node ''affine'' = None \<or> metadata node ''affine'' = Some PyNone"
  shows "image_layer CD h node shp =
           Inr \<lparr>known = copy_known (metadata node), channel_axis = Some c, properties = None\<rparr>"
  using assms
  by (auto simp: image_layer_def Let_def copy_known_apply METADATA_KEYS_def)

lemma image_layer_multi_affine:
  assumes "find_channel_axis CD h (metadata node) shp = Inr (Some c)"
    "metadata node ''affine'' = Some (PyArray A)"
  shows "image_layer CD h node shp =
           and_then (reduce_affine c (PyArray A)) (\<lambda>affine'.
             Inr \<lparr>known = (copy_known (metadata node))(''affine'' \<mapsto> affine'),
                  channel_axis = Some c, properties = None\<rparr>)"
  using assms
  by (auto simp: image_layer_def Let_def copy_known_apply METADATA_KEYS_def)

lemma image_layer_single:
  assumes "find_channel_axis CD h (metadata node) shp = Inr None"
  shows "image_layer CD h node shp =
           and_then (first_items h (metadata node) METADATA_KEYS Map.empty) (\<lambda>k.
             Inr \<lparr>known = k, channel_axis = None, properties = None\<rparr>)"
  using assms by (simp add: image_layer_def)

lemma label_layer_colormap:
  assumes "label_layer node d shp = Inr (d', md)"
  shows "known md ''colormap'' = metadata node ''colormap''"
  using assms
  by (auto simp: label_layer_def Let_def and_then_Inr_iff copy_known_apply METADATA_KEYS_def
      split: if_splits)

lemma image_layer_multi_colormap:
  assumes "image_layer CD h node shp = Inr md" "channel_axis md \<noteq> None"
  shows "known md ''colormap'' = metadata node ''colormap''"
proof -
  from image_layer_channel_axis [OF assms(1)] assms(2) obtain c where
    ax: "find_channel_axis CD h (metadata node) shp = Inr (Some c)" by auto
  show ?thesis
  proof (cases "metadata node ''affine''")
    case None
    with image_layer_multi_no_affine [OF ax] assms(1) show ?thesis
      by (auto simp: copy_known_apply METADATA_KEYS_def)
  next
    case (Some v)
    have ck: "copy_known (metadata node) ''affine'' = Some v"
      using Some by (simp add: copy_known_apply METADATA_KEYS_def)
    from assms(1) ax ck have "known md = copy_known (metadata node) \<or>
        (\<exists>v'. known md = (copy_known (metadata node))(''affine'' \<mapsto> v'))"
      by (cases v) (auto simp: image_layer_def Let_def and_then_Inr_iff)
    then show ?thesis by (auto simp: copy_known_apply METADATA_KEYS_def)
  qed
qed

lemma image_layer_single_colormap:
  assumes "image_layer CD h node shp = Inr md" "channel_axis md = None"
    "known md ''colormap'' = Some cms"
  shows "\<exists>v. metadata node ''colormap'' = Some v \<and> getitem0 h v = Inr cms"
proof -
  from image_layer_channel_axis [OF assms(1)] assms(2) have
    ax: "find_channel_axis CD h (metadata node) shp = Inr None" by simp
  from assms(1) image_layer_single [OF ax] obtain m' where
    m': "first_items h (metadata node) METADATA_KEYS Map.empty = Inr m'"
    and md: "md = \<lparr>known = m', channel_axis = None, properties = None\<rparr>"
    by (auto simp: and_then_Inr_iff)
  from first_items_result [OF m', of "''colormap''"] md assms(3) show ?thesis
    by (auto simp: METADATA_KEYS_def split: option.splits sum.splits)
qed

lemma map_err_length: "map_err g xs = Inr ys \<Longrightarrow> length ys = length xs"
  by (induction xs arbitrary: ys) (auto split: sum.splits)

lemma map_err_nth:
  "map_err g xs = Inr ys \<Longrightarrow> i < length xs \<Longrightarrow> g (xs ! i) = Inr (ys ! i)"
proof (induction xs arbitrary: ys i)
  case Nil
  then show ?case by simp
next
  case (Cons x xs)
  then show ?case by (cases i) (auto split: sum.splits)
qed

lemma map_err_total:
  "(\<And>x. x \<in> set xs \<Longrightarrow> \<exists>y. g x = Inr y) \<Longrightarrow> \<exists>ys. map_err g xs = Inr ys"
proof (induction xs)
  case Nil
  then show ?case by simp
next
  case (Cons x xs)
  then obtain y where "g x = Inr y" by auto
  moreover from Cons obtain ys where "map_err g xs = Inr ys" by auto
  ultimately show ?case by simp
qed

lemma take_first_axis1_ok:
  assumes "shape a = n0 # n1 # rest" "0 < n1"
  shows "\<exists>b. take_first_axis1 a = Inr b \<and> shape b = n0 # rest \<and>
             (\<forall>i r. item b (i # r) = item a (i # 0 # r))"
  using assms by (simp add: take_first_axis1_def)

lemma f_loop_results:
  assumes "f_loop ext CD nodes acc h = (rest, Inr (results, h'))"
  shows "rest = [] \<and>
         (\<exists>new. results = acc @ new \<and>
            list_all2 (\<lambda>node rv. \<exists>h0 h1. transform_node ext CD h0 node = Inr (Some rv, h1))
              (filter has_data nodes) new)"
  using assms
proof (induction nodes arbitrary: acc h)
  case Nil
  then show ?case by simp
next
  case (Cons node nodes)
  show ?case
  proof (cases "transform_node ext CD h node")
    case (Inl e)
    with Cons.prems show ?thesis by simp
  next
    case (Inr p)
    obtain r h1 where p: "p = (r, h1)" by (cases p) auto
    show ?thesis
    proof (cases r)
      case None
      with Inr p Cons.prems have run: "f_loop ext CD nodes acc h1 = (rest, Inr (results, h'))"
        by simp
      from Inr p None have "\<not> has_data node" using transform_node_NoneD by blast
      with Cons.IH [OF run] show ?thesis by simp
    next
      case (Some rv)
      with Inr p Cons.prems have
        run: "f_loop ext CD nodes (acc @ [rv]) h1 = (rest, Inr (results, h'))" by simp
      from Inr p Some have tn: "transform_node ext CD h node = Inr (Some rv, h1)" by simp
      then have hd: "has_data node" by (rule transform_node_Some_has_data)
      from Cons.IH [OF run] obtain new where
        new: "rest = []" "results = (acc @ [rv]) @ new"
        "list_all2 (\<lambda>node rv. \<exists>h0 h1. transform_node ext CD h0 node = Inr (Some rv, h1))
              (filter has_data nodes) new"
        by blast
      have "list_all2 (\<lambda>node rv. \<exists>h0 h1. transform_node ext CD h0 node = Inr (Some rv, h1))
              (filter has_data (node # nodes)) (rv # new)"
        using hd tn new(3) by auto
      with new(1,2) show ?thesis by auto
    qed
  qed
qed

section \<open>The example inputs, run\<close>

lemma example_image_facts:
  "\<not> is_label example_image"
  "data example_image = Some [example_pixels [1, 2, 4, 4]]"
  "metadata example_image ''affine'' = Some (PyArray example_affine)"
  "metadata example_image ''colormap'' = Some (PyList 0)"
  "metadata example_image ''axes'' = Some (PyList 1)"
  "node_properties (metadata example_image) = Inr None"
  by (simp_all add: example_image_def node_properties_def)

lemma example_legacy_facts:
  "\<not> is_label (example_legacy shp)"
  "data (example_legacy shp) = Some [example_pixels shp]"
  "metadata (example_legacy shp) ''affine'' = None"
  "metadata (example_legacy shp) ''colormap'' = None"
  "metadata (example_legacy shp) ''axes'' = None"
  "metadata (example_legacy shp) ''name'' = Some (PyStr ''cells'')"
  "metadata (example_legacy shp) ''visible'' = Some (PyBool True)"
  "metadata (example_legacy shp) ''contrast_limits'' = Some (PyList 4)"
  "node_properties (metadata (example_legacy shp)) = Inr None"
  by (simp_all add: example_legacy_def node_properties_def)

lemma example_legacy_not_realized:
  "metadata (example_legacy shp) x = Some v \<Longrightarrow> \<not> is_realized v"
  by (auto simp: example_legacy_def is_realized_def split: if_splits)

lemma example_affine_shape: "shape example_affine = [6, 6]"
  by (simp add: example_affine_def)

lemma example_affine_item: "item example_affine [i, j] = real (10 * i + j)"
  by (simp add: example_affine_def)

lemma example_normalize:
  "normalize_entries example_vispy 0 [0..<length (example_heap 0)] example_heap =
     Inr (example_heap(0 := [PyColormap 0, PyColormap 1]))"
  by (simp add: example_heap_def example_vispy_def realize_def is_Colormap_def upt_rec)

lemma example_image_axis:
  "find_channel_axis 1 example_heap (metadata example_image) shp = Inr (Some 1)"
  by (simp add: example_image_def example_heap_def find_channel_axis_def py_contains_c_def
      py_index_c_def)

lemma example_legacy_axis_single:
  "find_channel_axis 1 example_heap (metadata (example_legacy [1, 1, 1, 4, 4])) [1, 1, 1, 4, 4] = Inr None"
  by (simp add: example_legacy_def find_channel_axis_def)

lemma example_legacy_axis_multi:
  "find_channel_axis 1 example_heap (metadata (example_legacy [1, 3, 1, 4, 4])) [1, 3, 1, 4, 4] = Inr (Some 1)"
  by (simp add: example_legacy_def find_channel_axis_def)

lemma example_image_run:
  "\<exists>md. transform_node example_vispy 1 example_heap example_image =
          Inr (Some ([example_pixels [1, 2, 4, 4]], md, ''image''),
               example_heap(0 := [PyColormap 0, PyColormap 1])) \<and>
        channel_axis md = Some 1"
proof -
  let ?d = "[example_pixels [1, 2, 4, 4]]"
  obtain B where B: "reduce_affine 1 (PyArray example_affine :: nat pyval) = Inr (PyArray B)"
    using reduce_affine_6x6 [OF example_affine_shape, of 1] by auto
  let ?md = "\<lparr>known = (copy_known (metadata example_image))(''affine'' \<mapsto> PyArray B),
              channel_axis = Some 1, properties = (None :: nat columns option)\<rparr>"
  have il: "image_layer 1 example_heap example_image (shape (?d ! 0)) = Inr ?md"
    using image_layer_multi_affine [OF example_image_axis example_image_facts(3)] B by simp
  have cm: "known ?md ''colormap'' = Some (PyList 0)"
    by (simp add: copy_known_apply METADATA_KEYS_def example_image_facts)
  have norm: "normalize_colormaps example_vispy example_heap ?md =
      Inr (example_heap(0 := [PyColormap 0, PyColormap 1]))"
    using example_normalize cm by (simp add: normalize_colormaps_def)
  from transform_node_imageI [OF example_image_facts(2) _ example_image_facts(1) il norm
      example_image_facts(6)]
  show ?thesis by simp
qed

lemma example_legacy_single_run:
  "\<exists>md. transform_node example_vispy 1 example_heap (example_legacy [1, 1, 1, 4, 4]) =
     Inr (Some ([example_pixels [1, 1, 1, 4, 4]], md, ''image''), example_heap)"
proof -
  let ?n = "example_legacy [1, 1, 1, 4, 4]"
  let ?d = "[example_pixels [1, 1, 1, 4, 4]]"
  have sh: "shape (?d ! 0) = [1, 1, 1, 4, 4]" by (simp add: example_pixels_def)
  obtain m' where m': "first_items example_heap (metadata ?n) METADATA_KEYS Map.empty = Inr m'"
    using first_items_total [of METADATA_KEYS "metadata ?n" example_heap Map.empty]
      example_legacy_not_realized by blast
  let ?md = "\<lparr>known = m', channel_axis = None, properties = (None :: nat columns option)\<rparr>"
  have il: "image_layer 1 example_heap ?n (shape (?d ! 0)) = Inr ?md"
    using image_layer_single [OF example_legacy_axis_single] m' sh by simp
  have "m' ''colormap'' = None"
    using first_items_result [OF m', of "''colormap''"] by (simp add: example_legacy_facts)
  then have norm: "normalize_colormaps example_vispy example_heap ?md = Inr example_heap"
    by (simp add: normalize_colormaps_def)
  from transform_node_imageI [OF example_legacy_facts(2) _ example_legacy_facts(1) il norm
      example_legacy_facts(9)]
  show ?thesis by simp
qed

lemma example_nodes_run:
  "\<exists>r1 r2. f example_vispy 1 example_nodes example_heap =
     ([], Inr ([r1, r2], example_heap(0 := [PyColormap 0, PyColormap 1])))"
proof -
  from example_legacy_single_run obtain md1 where
    r1: "transform_node example_vispy 1 example_heap (example_legacy [1, 1, 1, 4, 4]) =
     Inr (Some ([example_pixels [1, 1, 1, 4, 4]], md1, ''image''), example_heap)" by blast
  from example_image_run obtain md2 where
    r2: "transform_node example_vispy 1 example_heap example_image =
     Inr (Some ([example_pixels [1, 2, 4, 4]], md2, ''image''),
          example_heap(0 := [PyColormap 0, PyColormap 1]))" by blast
  have s1: "transform_node example_vispy 1 example_heap (example_image\<lparr>data := None\<rparr>) =
      Inr (None, example_heap)"
    by (rule transform_node_skipped) (simp add: has_data_def)
  have s2: "transform_node example_vispy 1 example_heap (example_image\<lparr>data := Some []\<rparr>) =
      Inr (None, example_heap)"
    by (rule transform_node_skipped) (simp add: has_data_def)
  have "f example_vispy 1 example_nodes example_heap =
     ([], Inr ([([example_pixels [1, 1, 1, 4, 4]], md1, ''image''),
                ([example_pixels [1, 2, 4, 4]], md2, ''image'')],
               example_heap(0 := [PyColormap 0, PyColormap 1])))"
    by (simp add: f_def example_nodes_def r1 s1 s2 r2 del: One_nat_def)
  then show ?thesis by blast
qed

section \<open>The channel axis of an image\<close>

text \<open>
  C1. For an image node (not a label node) with data, the channel axis is found from the
  metadata and the shape of the first array:
  \<^item> when \<^verbatim>\<open>axes\<close> is a list (or a string) that contains \<^verbatim>\<open>"c"\<close>, it is the position
    of the first \<^verbatim>\<open>"c"\<close> (no array stands before it in the list, where numpy would
    decide the comparison);
  \<^item> when there is no \<^verbatim>\<open>axes\<close> key and the size of the shape at \<^verbatim>\<open>CHANNEL_DIMENSION\<close>
    is 1, there is no channel axis;
  \<^item> when there is no \<^verbatim>\<open>axes\<close> key and that size is greater than 1, it is
    \<^verbatim>\<open>CHANNEL_DIMENSION\<close>;
  \<^item> and whenever the node gives a record, the \<^verbatim>\<open>channel_axis\<close> entry of its metadata is
    the axis found, absent when none was found.
\<close>

theorem channel_axis_detection:
  assumes "\<not> is_label node" "data node = Some d" "d \<noteq> []"
  shows
   "(metadata node ''axes'' = Some (PyList a) \<and> i < length (h a) \<and> h a ! i = PyStr ''c'' \<and>
       (\<forall>j<i. h a ! j \<noteq> PyStr ''c'' \<and> (\<forall>arr. h a ! j \<noteq> PyArray arr))
      \<longrightarrow> find_channel_axis CD h (metadata node) (shape (d ! 0)) = Inr (Some i)) \<and>
    (metadata node ''axes'' = Some (PyStr s) \<and> n < length s \<and> s ! n = CHR ''c'' \<and>
       (\<forall>j<n. s ! j \<noteq> CHR ''c'')
      \<longrightarrow> find_channel_axis CD h (metadata node) (shape (d ! 0)) = Inr (Some n)) \<and>
    (metadata node ''axes'' = None \<and> CD < length (shape (d ! 0)) \<and> shape (d ! 0) ! CD = 1
      \<longrightarrow> find_channel_axis CD h (metadata node) (shape (d ! 0)) = Inr None) \<and>
    (metadata node ''axes'' = None \<and> CD < length (shape (d ! 0)) \<and> 1 < shape (d ! 0) ! CD
      \<longrightarrow> find_channel_axis CD h (metadata node) (shape (d ! 0)) = Inr (Some CD)) \<and>
    (transform_node ext CD h node = Inr (Some (d', md, k), h')
      \<longrightarrow> find_channel_axis CD h (metadata node) (shape (d ! 0)) = Inr (channel_axis md))"
proof (intro conjI impI)
  assume a: "metadata node ''axes'' = Some (PyList a) \<and> i < length (h a) \<and> h a ! i = PyStr ''c'' \<and>
       (\<forall>j<i. h a ! j \<noteq> PyStr ''c'' \<and> (\<forall>arr. h a ! j \<noteq> PyArray arr))"
  then have "find_c (h a) = Inr (Some i)"
    by (intro find_c_first) auto
  with a show "find_channel_axis CD h (metadata node) (shape (d ! 0)) = Inr (Some i)"
    by (simp add: find_channel_axis_def py_contains_c_def py_index_c_def)
next
  assume a: "metadata node ''axes'' = Some (PyStr s) \<and> n < length s \<and> s ! n = CHR ''c'' \<and>
       (\<forall>j<n. s ! j \<noteq> CHR ''c'')"
  then have "position (CHR ''c'') s = Some n"
    by (intro position_first) auto
  with a show "find_channel_axis CD h (metadata node) (shape (d ! 0)) = Inr (Some n)"
    by (simp add: find_channel_axis_def py_contains_c_def py_index_c_def)
next
  assume "metadata node ''axes'' = None \<and> CD < length (shape (d ! 0)) \<and> shape (d ! 0) ! CD = 1"
  then show "find_channel_axis CD h (metadata node) (shape (d ! 0)) = Inr None"
    by (simp add: find_channel_axis_def)
next
  assume "metadata node ''axes'' = None \<and> CD < length (shape (d ! 0)) \<and> 1 < shape (d ! 0) ! CD"
  then show "find_channel_axis CD h (metadata node) (shape (d ! 0)) = Inr (Some CD)"
    by (simp add: find_channel_axis_def)
next
  assume "transform_node ext CD h node = Inr (Some (d', md, k), h')"
  from transform_node_imageD [OF this assms(1,2)] obtain md0 props where
    il: "image_layer CD h node (shape (d ! 0)) = Inr md0" and
    md: "md = md0\<lparr>properties := transform_properties props\<rparr>"
    by blast
  from image_layer_channel_axis [OF il] md
  show "find_channel_axis CD h (metadata node) (shape (d ! 0)) = Inr (channel_axis md)" by simp
qed

theorem channel_axis_detection_witness:
  "find_channel_axis 1 example_heap (metadata example_image)
     (shape ([example_pixels [1, 2, 4, 4]] ! 0)) = Inr (Some 1) \<and>
   find_channel_axis 1 example_heap (metadata (example_legacy [1, 3, 1, 4, 4]))
     (shape ([example_pixels [1, 3, 1, 4, 4]] ! 0)) = Inr (Some 1) \<and>
   find_channel_axis 1 example_heap (metadata (example_legacy [1, 1, 1, 4, 4]))
     (shape ([example_pixels [1, 1, 1, 4, 4]] ! 0)) = Inr None \<and>
   (\<exists>md h'. transform_node example_vispy 1 example_heap (example_legacy [1, 1, 1, 4, 4]) =
              Inr (Some ([example_pixels [1, 1, 1, 4, 4]], md, ''image''), h') \<and>
            channel_axis md = None)"
proof -
  have a: "metadata example_image ''axes'' = Some (PyList 1) \<and> 1 < length (example_heap 1) \<and>
      example_heap 1 ! 1 = PyStr ''c'' \<and>
      (\<forall>j<1. example_heap 1 ! j \<noteq> PyStr ''c'' \<and> (\<forall>arr. example_heap 1 ! j \<noteq> PyArray arr))"
    by (simp add: example_image_facts example_heap_def)
  have 1: "find_channel_axis 1 example_heap (metadata example_image)
     (shape ([example_pixels [1, 2, 4, 4]] ! 0)) = Inr (Some 1)"
    using channel_axis_detection [OF example_image_facts(1,2), where a = 1 and i = 1
        and h = example_heap and CD = 1, THEN conjunct1, THEN mp, OF _ a]
    by simp
  have b: "metadata (example_legacy [1, 3, 1, 4, 4]) ''axes'' = None \<and>
      1 < length (shape ([example_pixels [1, 3, 1, 4, 4]] ! 0)) \<and>
      1 < shape ([example_pixels [1, 3, 1, 4, 4]] ! 0) ! 1"
    by (simp add: example_legacy_facts example_pixels_def)
  have 2: "find_channel_axis 1 example_heap (metadata (example_legacy [1, 3, 1, 4, 4]))
     (shape ([example_pixels [1, 3, 1, 4, 4]] ! 0)) = Inr (Some 1)"
    using channel_axis_detection [OF example_legacy_facts(1,2) [of "[1, 3, 1, 4, 4]"],
        where h = example_heap and CD = 1,
        THEN conjunct2, THEN conjunct2, THEN conjunct2, THEN conjunct1, THEN mp, OF _ b]
    by simp
  have c: "metadata (example_legacy [1, 1, 1, 4, 4]) ''axes'' = None \<and>
      1 < length (shape ([example_pixels [1, 1, 1, 4, 4]] ! 0)) \<and>
      shape ([example_pixels [1, 1, 1, 4, 4]] ! 0) ! 1 = 1"
    by (simp add: example_legacy_facts example_pixels_def)
  note t = channel_axis_detection [OF example_legacy_facts(1,2) [of "[1, 1, 1, 4, 4]"],
        where h = example_heap and CD = 1 and ext = example_vispy]
  have 3: "find_channel_axis 1 example_heap (metadata (example_legacy [1, 1, 1, 4, 4]))
     (shape ([example_pixels [1, 1, 1, 4, 4]] ! 0)) = Inr None"
    using t [THEN conjunct2, THEN conjunct2, THEN conjunct1, THEN mp, OF _ c] by simp
  from example_legacy_single_run obtain md where
    run: "transform_node example_vispy 1 example_heap (example_legacy [1, 1, 1, 4, 4]) =
     Inr (Some ([example_pixels [1, 1, 1, 4, 4]], md, ''image''), example_heap)" by blast
  from t [THEN conjunct2, THEN conjunct2, THEN conjunct2, THEN conjunct2, THEN mp, OF _ run]
  have "find_channel_axis 1 example_heap (metadata (example_legacy [1, 1, 1, 4, 4]))
     (shape ([example_pixels [1, 1, 1, 4, 4]] ! 0)) = Inr (channel_axis md)" by simp
  with 3 have "channel_axis md = None" by simp
  with run 1 2 3 show ?thesis by blast
qed

text \<open>
  C2. For an image node whose channel axis is \<open>c\<close>:
  \<^item> when the metadata has no \<^verbatim>\<open>affine\<close> value (no key, or None), building the metadata
    does not fail, \<^verbatim>\<open>channel_axis\<close> is \<open>c\<close> and \<^verbatim>\<open>affine\<close> is left as it is;
  \<^item> when \<^verbatim>\<open>affine\<close> is a 6 by 6 matrix \<open>A\<close> (so \<open>c < 6\<close>), building the metadata does not
    fail, \<^verbatim>\<open>channel_axis\<close> is \<open>c\<close> and \<^verbatim>\<open>affine\<close> is the 5 by 5 matrix that is \<open>A\<close>
    without row \<open>c\<close> and column \<open>c\<close>;
  \<^item> every record the node gives has \<^verbatim>\<open>channel_axis\<close> equal to \<open>c\<close> and the known keys as
    built in that step.
\<close>

theorem multi_channel_affine:
  fixes node :: "'c node"
  assumes "\<not> is_label node" "data node = Some d" "d \<noteq> []"
    and "find_channel_axis CD h (metadata node) (shape (d ! 0)) = Inr (Some c)"
  shows
   "((metadata node ''affine'' = None \<or> metadata node ''affine'' = Some PyNone) \<longrightarrow>
       (\<exists>md. image_layer CD h node (shape (d ! 0)) = Inr md \<and> channel_axis md = Some c \<and>
             known md ''affine'' = metadata node ''affine'')) \<and>
    (metadata node ''affine'' = Some (PyArray A) \<and> shape A = [6, 6] \<and> c < 6 \<longrightarrow>
       (\<exists>md B. image_layer CD h node (shape (d ! 0)) = Inr md \<and> channel_axis md = Some c \<and>
               known md ''affine'' = Some (PyArray B) \<and> shape B = [5, 5] \<and>
               (\<forall>i<5. \<forall>j<5. item B [i, j] = item A [skip_index c i, skip_index c j]))) \<and>
    (transform_node ext CD h node = Inr (Some (d', md', k), h') \<longrightarrow>
       (\<exists>md. image_layer CD h node (shape (d ! 0)) = Inr md \<and>
             channel_axis md' = Some c \<and> known md' = known md))"
proof (intro conjI impI)
  assume "metadata node ''affine'' = None \<or> metadata node ''affine'' = Some PyNone"
  from image_layer_multi_no_affine [OF assms(4) this]
  show "\<exists>md. image_layer CD h node (shape (d ! 0)) = Inr md \<and> channel_axis md = Some c \<and>
             known md ''affine'' = metadata node ''affine''"
    by (simp add: copy_known_apply METADATA_KEYS_def)
next
  assume a: "metadata node ''affine'' = Some (PyArray A) \<and> shape A = [6, 6] \<and> c < 6"
  then obtain B where
    B: "reduce_affine c (PyArray A :: 'c pyval) = Inr (PyArray B)" "shape B = [5, 5]"
    "\<forall>i<5. \<forall>j<5. item B [i, j] = item A [skip_index c i, skip_index c j]"
    using reduce_affine_6x6 [of A c] by blast
  from a have "metadata node ''affine'' = Some (PyArray A)" by simp
  from image_layer_multi_affine [OF assms(4) this] B(1)
  have "image_layer CD h node (shape (d ! 0)) =
          Inr \<lparr>known = (copy_known (metadata node))(''affine'' \<mapsto> PyArray B),
               channel_axis = Some c, properties = None\<rparr>"
    by simp
  with B(2,3)
  show "\<exists>md B. image_layer CD h node (shape (d ! 0)) = Inr md \<and> channel_axis md = Some c \<and>
               known md ''affine'' = Some (PyArray B) \<and> shape B = [5, 5] \<and>
               (\<forall>i<5. \<forall>j<5. item B [i, j] = item A [skip_index c i, skip_index c j])"
    by simp
next
  assume "transform_node ext CD h node = Inr (Some (d', md', k), h')"
  from transform_node_imageD [OF this assms(1,2)] obtain md0 props where
    il: "image_layer CD h node (shape (d ! 0)) = Inr md0" and
    md: "md' = md0\<lparr>properties := transform_properties props\<rparr>"
    by blast
  from image_layer_channel_axis [OF il] assms(4) have "channel_axis md0 = Some c" by simp
  with il md show "\<exists>md. image_layer CD h node (shape (d ! 0)) = Inr md \<and>
             channel_axis md' = Some c \<and> known md' = known md"
    by simp
qed

theorem multi_channel_affine_witness:
  "(\<exists>md B. image_layer 1 example_heap example_image (shape ([example_pixels [1, 2, 4, 4]] ! 0))
              = Inr md \<and>
            channel_axis md = Some 1 \<and> known md ''affine'' = Some (PyArray B) \<and>
            shape B = [5, 5] \<and> item B [0, 0] = 0 \<and> item B [1, 1] = 22 \<and>
            item B [4, 0] = 50 \<and> item B [0, 4] = 5) \<and>
   (\<exists>md md' h'. transform_node example_vispy 1 example_heap example_image =
                  Inr (Some ([example_pixels [1, 2, 4, 4]], md', ''image''), h') \<and>
                image_layer 1 example_heap example_image
                  (shape ([example_pixels [1, 2, 4, 4]] ! 0)) = Inr md \<and>
                channel_axis md' = Some 1 \<and> known md' = known md) \<and>
   (\<exists>md. image_layer 1 example_heap (example_legacy [1, 3, 1, 4, 4])
             (shape ([example_pixels [1, 3, 1, 4, 4]] ! 0)) = Inr md \<and>
         channel_axis md = Some 1 \<and> known md ''affine'' = None)"
proof -
  let ?d = "[example_pixels [1, 2, 4, 4]]"
  have ax: "find_channel_axis 1 example_heap (metadata example_image) (shape (?d ! 0))
      = Inr (Some 1)"
    by (rule example_image_axis)
  note t = multi_channel_affine [OF example_image_facts(1,2) _ ax,
      where A = example_affine and ext = example_vispy]
  have a: "metadata example_image ''affine'' = Some (PyArray example_affine) \<and>
      shape example_affine = [6, 6] \<and> (1::nat) < 6"
    by (simp add: example_image_facts example_affine_shape)
  from t [THEN conjunct2, THEN conjunct1, THEN mp, OF _ a]
  obtain md B where
    il: "image_layer 1 example_heap example_image (shape (?d ! 0)) = Inr md"
      "channel_axis md = Some 1" "known md ''affine'' = Some (PyArray B)" "shape B = [5, 5]"
    and items: "\<forall>i<5. \<forall>j<5. item B [i, j] = item example_affine [skip_index 1 i, skip_index 1 j]"
    by auto
  have "item B [0, 0] = 0" "item B [1, 1] = 22" "item B [4, 0] = 50" "item B [0, 4] = 5"
    using items [rule_format, of 0 0] items [rule_format, of 1 1]
      items [rule_format, of 4 0] items [rule_format, of 0 4]
    by (simp_all add: skip_index_def example_affine_item)
  with il have 1: "\<exists>md B. image_layer 1 example_heap example_image (shape (?d ! 0)) = Inr md \<and>
            channel_axis md = Some 1 \<and> known md ''affine'' = Some (PyArray B) \<and>
            shape B = [5, 5] \<and> item B [0, 0] = 0 \<and> item B [1, 1] = 22 \<and>
            item B [4, 0] = 50 \<and> item B [0, 4] = 5"
    by blast
  from example_image_run obtain md' where
    run: "transform_node example_vispy 1 example_heap example_image =
     Inr (Some (?d, md', ''image''), example_heap(0 := [PyColormap 0, PyColormap 1]))"
    by blast
  from t [THEN conjunct2, THEN conjunct2, THEN mp, OF _ run]
  have 2: "\<exists>md md' h'. transform_node example_vispy 1 example_heap example_image =
                  Inr (Some (?d, md', ''image''), h') \<and>
                image_layer 1 example_heap example_image (shape (?d ! 0)) = Inr md \<and>
                channel_axis md' = Some 1 \<and> known md' = known md"
    using run by auto
  let ?e = "[example_pixels [1, 3, 1, 4, 4]]"
  have axl: "find_channel_axis 1 example_heap (metadata (example_legacy [1, 3, 1, 4, 4]))
      (shape (?e ! 0)) = Inr (Some 1)"
    using example_legacy_axis_multi by (simp add: example_pixels_def)
  have b: "metadata (example_legacy [1, 3, 1, 4, 4]) ''affine'' = None \<or>
      metadata (example_legacy [1, 3, 1, 4, 4]) ''affine'' = Some PyNone"
    by (simp add: example_legacy_facts)
  from multi_channel_affine [OF example_legacy_facts(1,2) [of "[1, 3, 1, 4, 4]"] _ axl,
      THEN conjunct1, THEN mp, OF _ b]
  have 3: "\<exists>md. image_layer 1 example_heap (example_legacy [1, 3, 1, 4, 4]) (shape (?e ! 0))
             = Inr md \<and> channel_axis md = Some 1 \<and> known md ''affine'' = None"
    by (simp add: example_legacy_facts)
  from 1 2 3 show ?thesis by blast
qed

section \<open>Label nodes with five dimensions\<close>

text \<open>
  A label node whose first array has five dimensions and whose metadata holds a 6 by 6
  \<^verbatim>\<open>affine\<close>: every array loses axis 1, at index 0, and the matrix loses row 1 and
  column 1.
\<close>

lemma label_layer_5d_with_affine:
  fixes node :: "'c node"
  assumes "length shp = 5" "metadata node ''affine'' = Some (PyArray A)" "shape A = [6, 6]"
    and arrays: "\<And>a. a \<in> set d \<Longrightarrow> \<exists>n0 n1 rest. shape a = n0 # n1 # rest \<and> 0 < n1"
  shows "\<exists>d' md B. label_layer node d shp = Inr (d', md) \<and> length d' = length d \<and>
           (\<forall>k<length d. shape (d' ! k) = hd (shape (d ! k)) # drop 2 (shape (d ! k)) \<and>
                          (\<forall>i r. item (d' ! k) (i # r) = item (d ! k) (i # 0 # r))) \<and>
           known md ''affine'' = Some (PyArray B) \<and> shape B = [5, 5] \<and>
           (\<forall>i<5. \<forall>j<5. item B [i, j] = item A [skip_index 1 i, skip_index 1 j])"
proof -
  obtain B where
    B: "reduce_affine 1 (PyArray A :: 'c pyval) = Inr (PyArray B)" "shape B = [5, 5]"
      "\<forall>i<5. \<forall>j<5. item B [i, j] = item A [skip_index 1 i, skip_index 1 j]"
    using reduce_affine_6x6 [OF assms(3), of 1] by auto
  have "\<exists>y. take_first_axis1 a = Inr y" if "a \<in> set d" for a
    using arrays [OF that] take_first_axis1_ok by blast
  then obtain d' where d': "map_err take_first_axis1 d = Inr d'"
    using map_err_total [of d take_first_axis1] by blast
  have len: "length d' = length d" using d' by (rule map_err_length)
  have each: "shape (d' ! k) = hd (shape (d ! k)) # drop 2 (shape (d ! k)) \<and>
                          (\<forall>i r. item (d' ! k) (i # r) = item (d ! k) (i # 0 # r))"
    if "k < length d" for k
  proof -
    from that have "d ! k \<in> set d" by simp
    from arrays [OF this] obtain n0 n1 rest where
      s: "shape (d ! k) = n0 # n1 # rest" "0 < n1" by blast
    from take_first_axis1_ok [OF s] map_err_nth [OF d' that] s(1)
    show ?thesis by auto
  qed
  have "label_layer node d shp =
      Inr (d', \<lparr>known = (copy_known (metadata node))(''affine'' \<mapsto> PyArray B),
                channel_axis = None, properties = None\<rparr>)"
    using assms(1,2) B(1) d'
    by (simp add: label_layer_def Let_def copy_known_apply METADATA_KEYS_def)
  with len each B(2,3) show ?thesis by auto
qed

text \<open>
  C3. The label node with five dimensions should give arrays without axis 1, and a reduced
  \<^verbatim>\<open>affine\<close> if the metadata has one. But line 113 reads \<^verbatim>\<open>metadata["affine"]\<close> without
  asking whether the key is there (the image path asks, at line 131): for a label node with
  five dimensions and no \<^verbatim>\<open>affine\<close> the call ends with KeyError and gives no record.
\<close>

theorem label_5d_without_affine_fails:
  "transform_node example_vispy 1 example_heap example_label = Inl KeyError"
  by (simp add: transform_node_def example_label_def example_pixels_def label_layer_def
      copy_known_apply METADATA_KEYS_def)

section \<open>Properties of transform_properties\<close>

text \<open>
  The first loop leaves one empty list per key, in the order in which the keys are first
  seen; the second loop appends to every list once per object.
\<close>

lemma dict_set_absent: "k \<notin> fst ` set d \<Longrightarrow> dict_set k v d = d @ [(k, v)]"
  by (induction d) auto

lemma dict_set_keys:
  "map fst (dict_set k v d) = (if k \<in> fst ` set d then map fst d else map fst d @ [k])"
proof (induction d)
  case Nil
  then show ?case by simp
next
  case (Cons p d)
  obtain k' v' where p: "p = (k', v')" by (cases p) auto
  show ?case
  proof (cases "k' = k")
    case True
    with p show ?thesis by simp
  next
    case False
    with p Cons.IH show ?thesis by simp
  qed
qed

lemma dict_set_empty_lists:
  "\<forall>p \<in> set d. snd p = [] \<Longrightarrow> \<forall>p \<in> set (dict_set k [] d). snd p = []"
proof (induction d)
  case Nil
  then show ?case by simp
next
  case (Cons p d)
  obtain k' v' where p: "p = (k', v')" by (cases p) auto
  from Cons.prems have "\<forall>p \<in> set d. snd p = []" by simp
  from Cons.IH [OF this] Cons.prems p show ?case by simp
qed

lemma fold_dict_set_keys:
  "distinct (map fst d) \<Longrightarrow>
   distinct (map fst (fold (\<lambda>key p. dict_set key [] p) ks d)) \<and>
   set (map fst (fold (\<lambda>key p. dict_set key [] p) ks d)) = set (map fst d) \<union> set ks"
proof (induction ks arbitrary: d)
  case Nil
  then show ?case by simp
next
  case (Cons k ks)
  have "distinct (map fst (dict_set k [] d))"
    using Cons.prems by (auto simp: dict_set_keys)
  from Cons.IH [OF this] show ?case by (auto simp: dict_set_keys)
qed

lemma fold_dict_set_empty_lists:
  "\<forall>p \<in> set d. snd p = [] \<Longrightarrow>
   \<forall>p \<in> set (fold (\<lambda>key p. dict_set key [] p) ks d). snd p = []"
proof (induction ks arbitrary: d)
  case Nil
  then show ?case by simp
next
  case (Cons k ks)
  from Cons.IH [OF dict_set_empty_lists [OF Cons.prems]] show ?case by simp
qed

lemma create_lists_fold:
  "distinct (map fst d) \<Longrightarrow> \<forall>p \<in> set d. snd p = [] \<Longrightarrow>
   (let r = fold (\<lambda>(label_id, props_dict) properties.
               fold (\<lambda>key p. dict_set key [] p) (map fst props_dict) properties) ps d
    in distinct (map fst r) \<and> (\<forall>p \<in> set r. snd p = []) \<and>
       set (map fst r) = set (map fst d) \<union> (\<Union>obj \<in> set ps. fst ` set (snd obj)))"
proof (induction ps arbitrary: d)
  case Nil
  then show ?case by simp
next
  case (Cons obj ps)
  obtain label_id props_dict where obj: "obj = (label_id, props_dict)" by (cases obj) auto
  let ?d1 = "fold (\<lambda>key p. dict_set key [] p) (map fst props_dict) d"
  have 1: "distinct (map fst ?d1)" "set (map fst ?d1) = set (map fst d) \<union> set (map fst props_dict)"
    using fold_dict_set_keys [OF Cons.prems(1)] by blast+
  have 2: "\<forall>p \<in> set ?d1. snd p = []"
    using fold_dict_set_empty_lists [OF Cons.prems(2)] by blast
  from Cons.IH [OF 1(1) 2] 1(2) show ?case
    by (auto simp: obj Let_def)
qed

lemma create_lists_invariant:
  "distinct (map fst (create_lists ps)) \<and> (\<forall>p \<in> set (create_lists ps). snd p = []) \<and>
   set (map fst (create_lists ps)) = (\<Union>obj \<in> set ps. fst ` set (snd obj))"
  unfolding create_lists_def using create_lists_fold [of "[]" ps] by (simp add: Let_def)

lemma empty_lists_map: "\<forall>p \<in> set d. snd p = [] \<Longrightarrow> d = map (\<lambda>k. (k, [])) (map fst d)"
  by (induction d) auto

lemma create_lists_keys:
  "distinct (map fst (create_lists ps))"
  "set (map fst (create_lists ps)) = (\<Union>obj \<in> set ps. fst ` set (snd obj))"
  "create_lists ps = map (\<lambda>k. (k, [])) (map fst (create_lists ps))"
  using create_lists_invariant [of ps] empty_lists_map [of "create_lists ps"] by blast+

lemma dict_append_index:
  assumes "I \<notin> set K"
  shows "dict_append I x (map (\<lambda>k. (k, c k)) K @ [(I, ix)]) =
           map (\<lambda>k. (k, c k)) K @ [(I, ix @ [x])]"
  using assms by (auto simp: dict_append_def)

lemma dict_append_column:
  assumes "key \<noteq> I"
  shows "dict_append key x (map (\<lambda>k. (k, c k)) K @ [(I, ix)]) =
           map (\<lambda>k. (k, (c(key := c key @ [x])) k)) K @ [(I, ix)]"
  using assms by (auto simp: dict_append_def)

lemma fold_dict_append_columns:
  assumes "I \<notin> set K'" "distinct K'"
  shows "fold (\<lambda>key p. dict_append key (g key) p) K' (map (\<lambda>k. (k, c k)) K @ [(I, ix)]) =
           map (\<lambda>k. (k, if k \<in> set K' then c k @ [g k] else c k)) K @ [(I, ix)]"
  using assms
proof (induction K' arbitrary: c)
  case Nil
  then show ?case by simp
next
  case (Cons key K')
  have neq: "key \<noteq> I" using Cons.prems by auto
  have "fold (\<lambda>key p. dict_append key (g key) p) (key # K') (map (\<lambda>k. (k, c k)) K @ [(I, ix)]) =
        fold (\<lambda>key p. dict_append key (g key) p) K'
          (map (\<lambda>k. (k, (c(key := c key @ [g key])) k)) K @ [(I, ix)])"
    by (simp add: dict_append_column [OF neq])
  also have "\<dots> = map (\<lambda>k. (k, if k \<in> set K' then (c(key := c key @ [g key])) k @ [g k]
                                 else (c(key := c key @ [g key])) k)) K @ [(I, ix)]"
    using Cons.prems by (intro Cons.IH) auto
  also have "\<dots> = map (\<lambda>k. (k, if k \<in> set (key # K') then c k @ [g k] else c k)) K @ [(I, ix)]"
    using Cons.prems by auto
  finally show ?case .
qed

lemma append_object_columns:
  assumes "KStr ''index'' \<notin> set K" "distinct K"
  shows "append_object K obj (map (\<lambda>k. (k, c k)) K @ [(KStr ''index'', ix)]) =
           map (\<lambda>k. (k, c k @ [dict_get (snd obj) k])) K @
           [(KStr ''index'', ix @ [key_value (fst obj)])]"
proof -
  obtain label_id props_dict where obj: "obj = (label_id, props_dict)" by (cases obj) auto
  show ?thesis
    unfolding append_object_def obj
    by (simp add: dict_append_index [OF assms(1)] fold_dict_append_columns [OF assms])
qed

lemma fold_append_object_columns:
  assumes "KStr ''index'' \<notin> set K" "distinct K"
  shows "fold (append_object K) ps (map (\<lambda>k. (k, c k)) K @ [(KStr ''index'', ix)]) =
           map (\<lambda>k. (k, c k @ map (\<lambda>obj. dict_get (snd obj) k) ps)) K @
           [(KStr ''index'', ix @ map (\<lambda>obj. key_value (fst obj)) ps)]"
proof (induction ps arbitrary: c ix)
  case Nil
  then show ?case by simp
next
  case (Cons obj ps)
  show ?case
    by (simp add: append_object_columns [OF assms]
        Cons.IH [of "\<lambda>k. c k @ [dict_get (snd obj) k]" "ix @ [key_value (fst obj)]"])
qed

lemma transform_properties_columns:
  assumes "\<And>obj. obj \<in> set ps \<Longrightarrow> KStr ''index'' \<notin> fst ` set (snd obj)"
  shows "transform_properties (Some ps) =
           Some (map (\<lambda>k. (k, map (\<lambda>obj. dict_get (snd obj) k) ps)) (map fst (create_lists ps)) @
                 [(KStr ''index'', map (\<lambda>obj. key_value (fst obj)) ps)])"
proof -
  let ?K = "map fst (create_lists ps)"
  have K: "distinct ?K" "KStr ''index'' \<notin> set ?K"
    using create_lists_keys(1,2) [of ps] assms by auto
  have cl: "create_lists ps = map (\<lambda>k. (k, [])) ?K" by (rule create_lists_keys(3))
  have "dict_set (KStr ''index'') [] (create_lists ps) =
          map (\<lambda>k. (k, [])) ?K @ [(KStr ''index'', [])]"
    using dict_set_absent [of "KStr ''index''" "create_lists ps" "[]"] K(2) cl by simp
  then have "transform_properties (Some ps) =
      Some (fold (append_object ?K) ps (map (\<lambda>k. (k, [])) ?K @ [(KStr ''index'', [])]))"
    by (simp add: transform_properties_def Let_def)
  also have "\<dots> = Some (map (\<lambda>k. (k, map (\<lambda>obj. dict_get (snd obj) k) ps)) ?K @
                 [(KStr ''index'', map (\<lambda>obj. key_value (fst obj)) ps)])"
    using fold_append_object_columns [OF K(2,1), of ps "\<lambda>k. []" "[]"] by simp
  finally show ?thesis .
qed

lemma transform_properties_none: "transform_properties None = None"
  by (simp add: transform_properties_def)

text \<open>
  When no object has a property named \<^verbatim>\<open>"index"\<close>, the result holds the identifiers
  under \<^verbatim>\<open>"index"\<close> in the order of the input, every key of every object, and under
  each key one value per object, None where the object has no such key.
\<close>

lemma transform_properties_without_index_key:
  assumes "\<And>obj. obj \<in> set ps \<Longrightarrow> KStr ''index'' \<notin> fst ` set (snd obj)"
  shows "\<exists>cols. transform_properties (Some ps) = Some cols \<and>
           map_of cols (KStr ''index'') = Some (map (\<lambda>obj. key_value (fst obj)) ps) \<and>
           (\<forall>obj \<in> set ps. \<forall>k \<in> fst ` set (snd obj). k \<in> fst ` set cols) \<and>
           (\<forall>col \<in> set cols. length (snd col) = length ps) \<and>
           (\<forall>k xs. (k, xs) \<in> set cols \<and> k \<noteq> KStr ''index'' \<longrightarrow>
                    xs = map (\<lambda>obj. dict_get (snd obj) k) ps)"
proof -
  let ?K = "map fst (create_lists ps)"
  let ?cols = "map (\<lambda>k. (k, map (\<lambda>obj. dict_get (snd obj) k) ps)) ?K @
                 [(KStr ''index'', map (\<lambda>obj. key_value (fst obj)) ps)]"
  have K: "distinct ?K" "KStr ''index'' \<notin> set ?K"
    "set ?K = (\<Union>obj \<in> set ps. fst ` set (snd obj))"
    using create_lists_keys(1,2) [of ps] assms by auto
  have tp: "transform_properties (Some ps) = Some ?cols"
    using assms by (rule transform_properties_columns)
  have 1: "map_of ?cols (KStr ''index'') = Some (map (\<lambda>obj. key_value (fst obj)) ps)"
  proof -
    have "map_of (map (\<lambda>k. (k, map (\<lambda>obj. dict_get (snd obj) k) ps)) ?K) (KStr ''index'') = None"
      using K(2) by (simp add: map_of_eq_None_iff image_image del: map_map)
    then show ?thesis by (simp add: map_add_def del: map_map)
  qed
  have 2: "\<forall>obj \<in> set ps. \<forall>k \<in> fst ` set (snd obj). k \<in> fst ` set ?cols"
    using K(3) by (auto simp: image_iff)
  have 3: "\<forall>col \<in> set ?cols. length (snd col) = length ps" by auto
  have 4: "\<forall>k xs. (k, xs) \<in> set ?cols \<and> k \<noteq> KStr ''index'' \<longrightarrow>
                    xs = map (\<lambda>obj. dict_get (snd obj) k) ps" by auto
  from tp 1 2 3 4 show ?thesis by blast
qed

lemma transform_properties_example:
  "transform_properties
     (Some [(KStr ''a'', [(KStr ''x'', PyInt 1), (KStr ''y'', PyInt 2)]),
            (KStr ''b'', [(KStr ''x'', PyInt 3)])])
   = Some [(KStr ''x'', [PyInt 1, PyInt 3]),
           (KStr ''y'', [PyInt 2, PyNone]),
           (KStr ''index'', [PyStr ''a'', PyStr ''b''])]"
  by (simp add: transform_properties_def create_lists_def append_object_def
      dict_append_def dict_get_def)

text \<open>
  C4. The reshaped properties should hold the object identifiers under \<^verbatim>\<open>"index"\<close>
  and one value per object under every key. An object that has a property named
  \<^verbatim>\<open>"index"\<close> breaks this: for \<^verbatim>\<open>{"a": {"index": 7}}\<close> the first loop creates the list
  \<^verbatim>\<open>"index"\<close> as a property list, line 76 resets the same entry, and the second loop
  appends both the identifier and the property value to it. The result is
  \<^verbatim>\<open>{"index": ["a", 7]}\<close>: two entries for one object, and not the identifiers.
\<close>

theorem transform_properties_index_collision:
  "transform_properties (Some [(KStr ''a'', [(KStr ''index'', PyInt 7)])])
     = Some [(KStr ''index'', [PyStr ''a'', PyInt 7])]"
  by (simp add: transform_properties_def create_lists_def append_object_def
      dict_append_def dict_get_def)

section \<open>The records of a call\<close>

text \<open>
  C5. When a call of \<^verbatim>\<open>f\<close> returns its list, the list has exactly one record for every
  node whose data is neither None nor empty, in the order of the nodes: the records are,
  one by one, what the loop body gives for the nodes with data; a node without data gives
  none.
\<close>

theorem one_record_per_node_with_data:
  assumes "f ext CD nodes h = (rest, Inr (results, h'))"
  shows "length results = length (filter has_data nodes) \<and>
         list_all2 (\<lambda>node rv. \<exists>h0 h1. transform_node ext CD h0 node = Inr (Some rv, h1))
           (filter has_data nodes) results"
proof -
  from assms have "f_loop ext CD nodes [] h = (rest, Inr (results, h'))" by (simp add: f_def)
  from f_loop_results [OF this]
  have la: "list_all2 (\<lambda>node rv. \<exists>h0 h1. transform_node ext CD h0 node = Inr (Some rv, h1))
           (filter has_data nodes) results"
    by simp
  from list_all2_lengthD [OF la] la show ?thesis by simp
qed

theorem one_record_per_node_with_data_witness:
  "\<exists>r1 r2 h'. f example_vispy 1 example_nodes example_heap = ([], Inr ([r1, r2], h')) \<and>
              length (filter has_data example_nodes) = 2 \<and>
              length example_nodes = 4"
proof -
  from example_nodes_run obtain r1 r2 where
    run: "f example_vispy 1 example_nodes example_heap =
     ([], Inr ([r1, r2], example_heap(0 := [PyColormap 0, PyColormap 1])))" by blast
  from one_record_per_node_with_data [OF run]
  have "length (filter has_data example_nodes) = 2" by simp
  moreover have "length example_nodes = 4" by (simp add: example_nodes_def)
  ultimately show ?thesis using run by blast
qed

section \<open>Single-channel images\<close>

text \<open>
  C6. For an image node with no channel axis, lines 139-144 take \<^verbatim>\<open>[0]\<close> of the value of
  every known key that is present:
  \<^item> the step raises no Python exception (the model stops only when the value of a known
    key is itself a colour-map object, whose \<^verbatim>\<open>[0]\<close> is vispy's), and otherwise it
    returns the metadata;
  \<^item> in the metadata it returns, a known key present in the node holds element \<^verbatim>\<open>[0]\<close>
    of the node's value when \<^verbatim>\<open>[0]\<close> returns, and is absent when \<^verbatim>\<open>[0]\<close> raises; no other
    key is there, and there is no \<^verbatim>\<open>channel_axis\<close>;
  \<^item> every record the node gives holds these known keys unchanged.
\<close>

theorem single_channel_first_items:
  fixes node :: "'c node"
  assumes "\<not> is_label node" "data node = Some d" "d \<noteq> []"
    and "find_channel_axis CD h (metadata node) (shape (d ! 0)) = Inr None"
  shows
   "(image_layer CD h node (shape (d ! 0)) = Inl e \<longrightarrow>
       e = Unmodelled \<and> (\<exists>x \<in> set METADATA_KEYS. \<exists>v. metadata node x = Some v \<and> is_realized v)) \<and>
    ((\<forall>x \<in> set METADATA_KEYS. \<forall>v. metadata node x = Some v \<longrightarrow> \<not> is_realized v) \<longrightarrow>
       (\<exists>md. image_layer CD h node (shape (d ! 0)) = Inr md)) \<and>
    (image_layer CD h node (shape (d ! 0)) = Inr md \<longrightarrow>
       channel_axis md = None \<and>
       (\<forall>x v. x \<in> set METADATA_KEYS \<and> metadata node x = Some v \<longrightarrow>
          (case getitem0 h v of
             Inr item0 \<Rightarrow> known md x = Some item0
           | Inl err \<Rightarrow> known md x = None)) \<and>
       (\<forall>x. x \<notin> set METADATA_KEYS \<or> metadata node x = None \<longrightarrow> known md x = None)) \<and>
    (transform_node ext CD h node = Inr (Some (d', md', k), h') \<longrightarrow>
       (\<exists>md. image_layer CD h node (shape (d ! 0)) = Inr md \<and>
             known md' = known md \<and> channel_axis md' = None))"
proof -
  let ?fi = "first_items h (metadata node) METADATA_KEYS Map.empty"
  have il: "image_layer CD h node (shape (d ! 0)) =
      and_then ?fi (\<lambda>k. Inr \<lparr>known = k, channel_axis = None, properties = None\<rparr>)"
    using assms(4) by (rule image_layer_single)
  have 1: "e = Unmodelled \<and> (\<exists>x \<in> set METADATA_KEYS. \<exists>v. metadata node x = Some v \<and> is_realized v)"
    if "image_layer CD h node (shape (d ! 0)) = Inl e"
  proof -
    from that il have "?fi = Inl e" by (cases ?fi) simp_all
    then show ?thesis by (rule first_items_error)
  qed
  have 2: "\<exists>md. image_layer CD h node (shape (d ! 0)) = Inr md"
    if "\<forall>x \<in> set METADATA_KEYS. \<forall>v. metadata node x = Some v \<longrightarrow> \<not> is_realized v"
  proof -
    from that have "\<exists>m'. ?fi = Inr m'" by (intro first_items_total) blast
    with il show ?thesis by auto
  qed
  have 3: "channel_axis md = None \<and>
       (\<forall>x v. x \<in> set METADATA_KEYS \<and> metadata node x = Some v \<longrightarrow>
          (case getitem0 h v of
             Inr item0 \<Rightarrow> known md x = Some item0
           | Inl err \<Rightarrow> known md x = None)) \<and>
       (\<forall>x. x \<notin> set METADATA_KEYS \<or> metadata node x = None \<longrightarrow> known md x = None)"
    if "image_layer CD h node (shape (d ! 0)) = Inr md"
  proof -
    from that il obtain m' where m': "?fi = Inr m'"
      and md: "md = \<lparr>known = m', channel_axis = None, properties = None\<rparr>"
      by (auto simp: and_then_Inr_iff)
    note r = first_items_result [OF m']
    have "known md x = (if x \<in> set METADATA_KEYS
           then (case metadata node x of
                   None \<Rightarrow> None
                 | Some v \<Rightarrow> (case getitem0 h v of Inr e \<Rightarrow> Some e | Inl _ \<Rightarrow> None))
           else None)" for x
      using r [of x] md by simp
    then show ?thesis using md by (auto split: sum.splits)
  qed
  have 4: "\<exists>md. image_layer CD h node (shape (d ! 0)) = Inr md \<and>
             known md' = known md \<and> channel_axis md' = None"
    if "transform_node ext CD h node = Inr (Some (d', md', k), h')"
  proof -
    from transform_node_imageD [OF that assms(1,2)] obtain md0 props where
      il0: "image_layer CD h node (shape (d ! 0)) = Inr md0" and
      md: "md' = md0\<lparr>properties := transform_properties props\<rparr>"
      by blast
    from image_layer_channel_axis [OF il0] assms(4) have "channel_axis md0 = None" by simp
    with il0 md show ?thesis by simp
  qed
  from 1 2 3 4 show ?thesis by blast
qed

theorem single_channel_first_items_witness:
  "\<exists>md h'. transform_node example_vispy 1 example_heap (example_legacy [1, 1, 1, 4, 4]) =
             Inr (Some ([example_pixels [1, 1, 1, 4, 4]], md, ''image''), h') \<and>
           channel_axis md = None \<and>
           known md ''name'' = Some (PyStr ''c'') \<and>
           getitem0 example_heap (PyBool True :: nat pyval) = Inl TypeError \<and>
           known md ''visible'' = None \<and>
           known md ''contrast_limits'' = Some (PyList 3) \<and>
           known md ''affine'' = None"
proof -
  let ?n = "example_legacy [1, 1, 1, 4, 4]"
  let ?d = "[example_pixels [1, 1, 1, 4, 4]]"
  have ax: "find_channel_axis 1 example_heap (metadata ?n) (shape (?d ! 0)) = Inr None"
    using example_legacy_axis_single by (simp add: example_pixels_def)
  from example_legacy_single_run obtain md' where
    run: "transform_node example_vispy 1 example_heap ?n =
     Inr (Some (?d, md', ''image''), example_heap)"
    by blast
  from single_channel_first_items [OF example_legacy_facts(1,2) [of "[1, 1, 1, 4, 4]"] _ ax,
      where ext = example_vispy, THEN conjunct2, THEN conjunct2, THEN conjunct2, THEN mp, OF _ run]
  obtain md where
    il: "image_layer 1 example_heap ?n (shape (?d ! 0)) = Inr md" and
    same: "known md' = known md" "channel_axis md' = None"
    by auto
  from single_channel_first_items [OF example_legacy_facts(1,2) [of "[1, 1, 1, 4, 4]"] _ ax,
      THEN conjunct2, THEN conjunct2, THEN conjunct1, THEN mp, OF _ il]
  have each: "\<forall>x v. x \<in> set METADATA_KEYS \<and> metadata ?n x = Some v \<longrightarrow>
          (case getitem0 example_heap v of
             Inr item0 \<Rightarrow> known md x = Some item0
           | Inl err \<Rightarrow> known md x = None)"
    and none: "\<forall>x. x \<notin> set METADATA_KEYS \<or> metadata ?n x = None \<longrightarrow> known md x = None"
    by auto
  have g: "getitem0 example_heap (PyStr ''cells'' :: nat pyval) = Inr (PyStr ''c'')"
    "getitem0 example_heap (PyBool True :: nat pyval) = Inl TypeError"
    "getitem0 example_heap (PyList 4) = Inr (PyList 3)"
    by (simp_all add: getitem0_def example_heap_def)
  have "known md ''name'' = Some (PyStr ''c'')"
    using each [rule_format, of "''name''" "PyStr ''cells''"] g
    by (simp add: METADATA_KEYS_def example_legacy_facts)
  moreover have "known md ''visible'' = None"
    using each [rule_format, of "''visible''" "PyBool True"] g
    by (simp add: METADATA_KEYS_def example_legacy_facts)
  moreover have "known md ''contrast_limits'' = Some (PyList 3)"
    using each [rule_format, of "''contrast_limits''" "PyList 4"] g
    by (simp add: METADATA_KEYS_def example_legacy_facts)
  moreover have "known md ''affine'' = None"
    using none [rule_format, of "''affine''"] by (simp add: example_legacy_facts)
  ultimately show ?thesis using run same g(2) by auto
qed

section \<open>The store\<close>

text \<open>
  C7, as stated, does not hold: the transform writes into the node's own colormap list.
  The image \<open>example_image\<close> has the list at address 0 as its \<^verbatim>\<open>colormap\<close>,
  \<^verbatim>\<open>["reds", <Colormap 1>]\<close>; after the transform that list is
  \<^verbatim>\<open>[<Colormap 0>, <Colormap 1>]\<close>.
\<close>

theorem node_colormap_list_mutated:
  "list_after (transform_node example_vispy 1 example_heap example_image) 0
     = Some [PyColormap 0, PyColormap 1] \<and>
   metadata example_image ''colormap'' = Some (PyList 0) \<and>
   example_heap 0 = [PyStr ''reds'', PyColormap 1]"
proof -
  from example_image_run obtain md where
    run: "transform_node example_vispy 1 example_heap example_image =
     Inr (Some ([example_pixels [1, 2, 4, 4]], md, ''image''),
          example_heap(0 := [PyColormap 0, PyColormap 1]))"
    by blast
  have "list_after (transform_node example_vispy 1 example_heap example_image) 0
     = Some [PyColormap 0, PyColormap 1]"
    unfolding run by (simp add: list_after_def)
  moreover have "example_heap 0 = [PyStr ''reds'', PyColormap 1]"
    by (simp add: example_heap_def)
  ultimately show ?thesis by (simp add: example_image_facts)
qed

text \<open>
  C7, amended. When the transform of a node returns, it has written to at most one list of
  the store: the one that the \<^verbatim>\<open>colormap\<close> entry of the record's metadata refers to.
  Every other list is unchanged, and a skipped node changes nothing. In that one list the
  length is kept, an entry that is an instance of \<^verbatim>\<open>Colormap\<close> stays, and every other
  entry has been replaced by the object that \<^verbatim>\<open>get_colormap\<close> (for a string) or
  \<^verbatim>\<open>Colormap\<close> (for anything else) returned for it; so the list has changed whenever it
  held an entry that was not a colour-map object. For a label node and for an image with
  a channel axis this list is the node's own \<^verbatim>\<open>colormap\<close> list; for an image without
  channel axis it is element \<^verbatim>\<open>[0]\<close> of the node's \<^verbatim>\<open>colormap\<close> value.
\<close>

theorem transform_node_store_frame:
  assumes "transform_node ext CD h node = Inr (r, h')"
  shows "case r of
           None \<Rightarrow> h' = h
         | Some (d', md, k) \<Rightarrow>
             (\<forall>a. known md ''colormap'' \<noteq> Some (PyList a) \<longrightarrow> h' a = h a) \<and>
             (\<forall>cms. known md ''colormap'' = Some (PyList cms) \<longrightarrow>
                length (h' cms) = length (h cms) \<and>
                (\<forall>i<length (h cms).
                   (is_Colormap ext (h cms ! i) \<longrightarrow> h' cms ! i = h cms ! i) \<and>
                   (\<not> is_Colormap ext (h cms ! i) \<longrightarrow>
                      (\<exists>h0 c. (\<forall>a. a \<noteq> cms \<longrightarrow> h0 a = h a) \<and>
                              realize ext h0 (h cms ! i) = Inr c \<and>
                              h' cms ! i = PyColormap c))) \<and>
                ((\<exists>x \<in> set (h cms). \<not> is_realized x) \<longrightarrow> h' cms \<noteq> h cms)) \<and>
             ((is_label node \<or> channel_axis md \<noteq> None) \<longrightarrow>
                known md ''colormap'' = metadata node ''colormap'') \<and>
             (\<not> is_label node \<and> channel_axis md = None \<longrightarrow>
                (\<forall>cms. known md ''colormap'' = Some cms \<longrightarrow>
                   (\<exists>v. metadata node ''colormap'' = Some v \<and> getitem0 h v = Inr cms)))"
proof (cases r)
  case None
  with assms transform_node_NoneD [of ext CD h node h'] show ?thesis by simp
next
  case (Some rv)
  obtain d' md k where rv: "rv = (d', md, k)" by (cases rv) auto
  from assms Some rv have run: "transform_node ext CD h node = Inr (Some (d', md, k), h')"
    by simp
  then obtain d where d: "data node = Some d" by (auto elim: transform_node_SomeD)
  have "\<exists>md0 props. normalize_colormaps ext h md0 = Inr h' \<and>
          md = md0\<lparr>properties := transform_properties props\<rparr> \<and>
          (is_label node \<longrightarrow> label_layer node d (shape (d ! 0)) = Inr (d', md0)) \<and>
          (\<not> is_label node \<longrightarrow> image_layer CD h node (shape (d ! 0)) = Inr md0)"
  proof (cases "is_label node")
    case True
    from transform_node_labelD [OF run True d] True show ?thesis by blast
  next
    case False
    from transform_node_imageD [OF run False d] False show ?thesis by blast
  qed
  then obtain md0 props where
    norm: "normalize_colormaps ext h md0 = Inr h'" and
    md: "md = md0\<lparr>properties := transform_properties props\<rparr>" and
    lab: "is_label node \<Longrightarrow> label_layer node d (shape (d ! 0)) = Inr (d', md0)" and
    img: "\<not> is_label node \<Longrightarrow> image_layer CD h node (shape (d ! 0)) = Inr md0"
    by blast
  have k: "known md = known md0" "channel_axis md = channel_axis md0" using md by simp_all
  from normalize_colormaps_exact [OF norm] k(1)
  have 1: "\<forall>a. known md ''colormap'' \<noteq> Some (PyList a) \<longrightarrow> h' a = h a"
    and ex: "\<forall>cms. known md ''colormap'' = Some (PyList cms) \<longrightarrow>
            length (h' cms) = length (h cms) \<and>
            (\<forall>i<length (h cms).
               (is_Colormap ext (h cms ! i) \<longrightarrow> h' cms ! i = h cms ! i) \<and>
               (\<not> is_Colormap ext (h cms ! i) \<longrightarrow>
                  (\<exists>h0 c. (\<forall>a. a \<noteq> cms \<longrightarrow> h0 a = h a) \<and>
                          realize ext h0 (h cms ! i) = Inr c \<and> h' cms ! i = PyColormap c)))"
    by simp_all
  have changed: "h' cms \<noteq> h cms"
    if cms: "known md ''colormap'' = Some (PyList cms)" and x: "\<exists>x \<in> set (h cms). \<not> is_realized x"
    for cms
  proof -
    from x obtain i where i: "i < length (h cms)" "\<not> is_realized (h cms ! i)"
      by (auto simp: in_set_conv_nth)
    then have "\<not> is_Colormap ext (h cms ! i)" using is_Colormap_realized by blast
    with ex cms i(1) obtain c where "h' cms ! i = PyColormap c" by blast
    then have "is_realized (h' cms ! i)" by (simp add: is_realized_def)
    with i(2) show ?thesis by auto
  qed
  have 2: "\<forall>cms. known md ''colormap'' = Some (PyList cms) \<longrightarrow>
                length (h' cms) = length (h cms) \<and>
                (\<forall>i<length (h cms).
                   (is_Colormap ext (h cms ! i) \<longrightarrow> h' cms ! i = h cms ! i) \<and>
                   (\<not> is_Colormap ext (h cms ! i) \<longrightarrow>
                      (\<exists>h0 c. (\<forall>a. a \<noteq> cms \<longrightarrow> h0 a = h a) \<and>
                              realize ext h0 (h cms ! i) = Inr c \<and>
                              h' cms ! i = PyColormap c))) \<and>
                ((\<exists>x \<in> set (h cms). \<not> is_realized x) \<longrightarrow> h' cms \<noteq> h cms)"
    using ex changed by blast
  have 3: "known md ''colormap'' = metadata node ''colormap''"
    if "is_label node \<or> channel_axis md \<noteq> None"
  proof (cases "is_label node")
    case True
    from label_layer_colormap [OF lab [OF True]] k show ?thesis by simp
  next
    case False
    with that have "channel_axis md0 \<noteq> None" using k by simp
    from image_layer_multi_colormap [OF img [OF False] this] k show ?thesis by simp
  qed
  have 4: "\<exists>v. metadata node ''colormap'' = Some v \<and> getitem0 h v = Inr cms"
    if "\<not> is_label node \<and> channel_axis md = None" "known md ''colormap'' = Some cms" for cms
    using image_layer_single_colormap [OF img, of cms] that k by simp
  from 1 2 3 4 show ?thesis unfolding Some rv by simp
qed

theorem transform_node_store_frame_witness:
  "\<exists>md h'. transform_node example_vispy 1 example_heap example_image =
             Inr (Some ([example_pixels [1, 2, 4, 4]], md, ''image''), h') \<and>
           known md ''colormap'' = Some (PyList 0) \<and>
           metadata example_image ''colormap'' = Some (PyList 0) \<and>
           h' 1 = example_heap 1 \<and> h' 2 = example_heap 2 \<and>
           length (h' 0) = length (example_heap 0) \<and>
           h' 0 ! 1 = example_heap 0 ! 1 \<and>
           get_colormap example_vispy ''reds'' = Inr 0 \<and> h' 0 ! 0 = PyColormap 0 \<and>
           h' 0 \<noteq> example_heap 0"
proof -
  from example_image_run obtain md where
    run: "transform_node example_vispy 1 example_heap example_image =
     Inr (Some ([example_pixels [1, 2, 4, 4]], md, ''image''),
          example_heap(0 := [PyColormap 0, PyColormap 1]))"
    and ch: "channel_axis md = Some 1"
    by blast
  let ?h' = "example_heap(0 := [PyColormap 0, PyColormap (1::nat)])"
  from transform_node_store_frame [OF run]
  have fr: "\<forall>a. known md ''colormap'' \<noteq> Some (PyList a) \<longrightarrow> ?h' a = example_heap a"
    and ex: "\<forall>cms. known md ''colormap'' = Some (PyList cms) \<longrightarrow>
                length (?h' cms) = length (example_heap cms) \<and>
                (\<forall>i<length (example_heap cms).
                   (is_Colormap example_vispy (example_heap cms ! i) \<longrightarrow>
                      ?h' cms ! i = example_heap cms ! i) \<and>
                   (\<not> is_Colormap example_vispy (example_heap cms ! i) \<longrightarrow>
                      (\<exists>h0 c. (\<forall>a. a \<noteq> cms \<longrightarrow> h0 a = example_heap a) \<and>
                              realize example_vispy h0 (example_heap cms ! i) = Inr c \<and>
                              ?h' cms ! i = PyColormap c))) \<and>
                ((\<exists>x \<in> set (example_heap cms). \<not> is_realized x) \<longrightarrow>
                   ?h' cms \<noteq> example_heap cms)"
    and cm: "is_label example_image \<or> channel_axis md \<noteq> None \<longrightarrow>
             known md ''colormap'' = metadata example_image ''colormap''"
    by simp_all
  have kc: "known md ''colormap'' = Some (PyList 0)"
    using cm ch by (simp add: example_image_facts)
  have o1: "?h' 1 = example_heap 1" using fr [rule_format, of 1] kc by simp
  have o2: "?h' 2 = example_heap 2" using fr [rule_format, of 2] kc by simp
  note e = ex [THEN spec [where x = 0], THEN mp, OF kc]
  note l0 = e [THEN conjunct1]
  note each = e [THEN conjunct2, THEN conjunct1]
  note ch0 = e [THEN conjunct2, THEN conjunct2]
  have e0: "example_heap 0 = [PyStr ''reds'', PyColormap 1]" by (simp add: example_heap_def)
  have in0: "0 < length (example_heap 0)" and in1: "1 < length (example_heap 0)"
    by (simp_all add: e0)
  have inst1: "is_Colormap example_vispy (example_heap 0 ! 1)"
    by (simp add: e0 is_Colormap_def example_vispy_def)
  have s1: "?h' 0 ! 1 = example_heap 0 ! 1"
    by (rule each [THEN spec [where x = 1], THEN mp, OF in1, THEN conjunct1, THEN mp, OF inst1])
  have inst0: "\<not> is_Colormap example_vispy (example_heap 0 ! 0)"
    by (simp add: e0 is_Colormap_def)
  from each [THEN spec [where x = 0], THEN mp, OF in0, THEN conjunct2, THEN mp, OF inst0]
  obtain h0 c where
    r0: "realize example_vispy h0 (example_heap 0 ! 0) = Inr c" and w0: "?h' 0 ! 0 = PyColormap c"
    by blast
  from r0 have "get_colormap example_vispy ''reds'' = Inr c"
    by (simp add: e0 realize_def)
  moreover have g0: "get_colormap example_vispy ''reds'' = Inr 0"
    by (simp add: example_vispy_def)
  ultimately have "c = 0" by simp
  with w0 g0 have s0: "get_colormap example_vispy ''reds'' = Inr 0" "?h' 0 ! 0 = PyColormap 0"
    by simp_all
  have "\<exists>x \<in> set (example_heap 0). \<not> is_realized x" by (simp add: e0 is_realized_def)
  with ch0 have ne: "?h' 0 \<noteq> example_heap 0" by (rule mp)
  have mc: "metadata example_image ''colormap'' = Some (PyList 0)"
    by (rule example_image_facts)
  show ?thesis
    by (intro exI [of _ md] exI [of _ ?h'] conjI) (rule run kc mc o1 o2 l0 s1 s0 ne)+
qed

section \<open>Normalization of a list of realized colour maps\<close>



text \<open>
  The same does not hold of a list that the pass itself has filled. vispy's \<^verbatim>\<open>"hot"\<close>
  is not an instance of \<^verbatim>\<open>Colormap\<close>: the first pass over \<^verbatim>\<open>["hot"]\<close> stores the
  object, and the second pass hands that object to the constructor, which raises.
\<close>

lemma normalize_hot_twice:
  "normalize_colormaps example_vispy example_heap
     \<lparr>known = [''colormap'' \<mapsto> PyList 5], channel_axis = None, properties = None\<rparr>
     = Inr (example_heap(5 := [PyColormap 2])) \<and>
   normalize_colormaps example_vispy (example_heap(5 := [PyColormap 2]))
     \<lparr>known = [''colormap'' \<mapsto> PyList 5], channel_axis = None, properties = None\<rparr>
     = Inl TypeError"
  by (simp add: normalize_colormaps_def example_heap_def example_vispy_def realize_def
      is_Colormap_def upt_rec)

section \<open>napari_get_reader: more than one path\<close>

text \<open>
  C9. When \<^verbatim>\<open>path\<close> is a list with more than one entry, the function warns once and
  goes on with the first entry only: \<^verbatim>\<open>parse_url\<close> is called exactly once, with the
  first path, and what is returned is decided by that call alone.
\<close>

theorem napari_get_reader_many_paths:
  "napari_get_reader parse_url reader (Paths (p1 # p2 # ps)) =
     (\<lparr>warnings = [''more than one path is not currently supported''],
       parse_url_calls = [p1]\<rparr>,
      Inr (map_option (\<lambda>zarr. transform (reader zarr)) (parse_url p1)))"
  by (cases "parse_url p1") (simp_all add: napari_get_reader_def resolve_def)

lemma napari_get_reader_two_paths_example:
  "fst (napari_get_reader (\<lambda>p. if p = ''p1'' then Some (0::nat) else None)
          (\<lambda>z. ([] :: nat node list)) (Paths [''p1'', ''p2''])) =
     \<lparr>warnings = [''more than one path is not currently supported''],
      parse_url_calls = [''p1'']\<rparr>"
  by (simp add: napari_get_reader_def resolve_def)

section \<open>The reader function is single-shot\<close>

text \<open>
  C10. \<^verbatim>\<open>transform\<close> captures the iterator without consuming it. When the first call of
  the reader function returns, it has returned the records of all the nodes and left the
  iterator exhausted: any later call returns the empty list and changes nothing.
\<close>

theorem reader_function_single_shot:
  assumes "invoke ext CD (transform nodes) h = (rf, Inr (results, h'))"
  shows "captured (transform nodes) = nodes \<and>
         f ext CD nodes h = ([], Inr (results, h')) \<and>
         rf = ReaderFunction [] \<and>
         invoke ext CD rf h'' = (rf, Inr ([], h''))"
proof -
  obtain rest outcome where fr: "f ext CD nodes h = (rest, outcome)" by (cases "f ext CD nodes h") auto
  with assms have rf: "rf = ReaderFunction rest" and out: "outcome = Inr (results, h')"
    by (simp_all add: invoke_def transform_def)
  from fr out have "f_loop ext CD nodes [] h = (rest, Inr (results, h'))" by (simp add: f_def)
  from f_loop_results [OF this] have "rest = []" by simp
  with fr out rf show ?thesis by (simp add: invoke_def transform_def f_def)
qed

theorem reader_function_single_shot_witness:
  "\<exists>r1 r2 h'. invoke example_vispy 1 (transform example_nodes) example_heap =
                 (ReaderFunction [], Inr ([r1, r2], h')) \<and>
              invoke example_vispy 1 (ReaderFunction []) h' = (ReaderFunction [], Inr ([], h'))"
proof -
  from example_nodes_run obtain r1 r2 where
    run: "f example_vispy 1 example_nodes example_heap =
     ([], Inr ([r1, r2], example_heap(0 := [PyColormap 0, PyColormap 1])))" by blast
  let ?h' = "example_heap(0 := [PyColormap 0, PyColormap (1::nat)])"
  have inv: "invoke example_vispy 1 (transform example_nodes) example_heap =
      (ReaderFunction [], Inr ([r1, r2], ?h'))"
    using run by (simp add: invoke_def transform_def)
  from reader_function_single_shot [OF inv, of ?h']
  have "invoke example_vispy 1 (ReaderFunction []) ?h' = (ReaderFunction [], Inr ([], ?h'))"
    by simp
  with inv show ?thesis by blast
qed

end
